theory Spec2Isabelle
  imports Complex_Main "HOL-Library.Monad_Syntax" "HOL-Library.Char_ord" "HOL-Library.List_Lexorder"
    "HOL-Library.Log_Nat"
begin

section \<open>Column detailer: data model\<close>

text \<open>
  Python ints are modelled as \<^typ>\<open>int\<close>, Python floats as the \<^typ>\<open>real\<close> numbers
  they denote. The arithmetic of \<^verbatim>\<open>calculate_column_geometry\<close> is that of doubles: every
  operation rounds its exact result to the nearest double (section "Double-precision
  arithmetic"). The other functions compute on the reals; infinities and NaN are outside
  the model. A leading underscore of a Python name is dropped, since an Isabelle
  identifier starts with a letter.
\<close>

datatype error = NameError | ZeroDivisionError | TypeError | IndexError

text \<open>\<^verbatim>\<open>excel_reader.py\<close>: the dataclasses \<^verbatim>\<open>ColumnSettings\<close> and \<^verbatim>\<open>FloorData\<close>.\<close>

record ColumnSettings =
  beam_depth :: real
  beam_extension :: real
  concrete_cover :: real
  scale :: real
  spacing_between_columns :: real
  foundation_depth :: real
  foundation_cover :: real
  section_scale :: real
  is_foundation_string :: bool

record FloorData =
  total_height :: real
  column_length :: real
  column_width :: real
  floor_name :: string
  rebar_amount :: int
  rebar_amount_x :: int
  rebar_amount_y :: int
  rebar_diameter :: real
  edge_stirrup_spacing :: real
  mid_stirrup_spacing :: real
  stirrup_diameter :: real
  section_number :: int

text \<open>\<^verbatim>\<open>entities/column.py\<close>: \<^verbatim>\<open>Point3D\<close> (fields \<^verbatim>\<open>x\<close>, \<^verbatim>\<open>y\<close>, \<^verbatim>\<open>z\<close>).\<close>

datatype Point3D = Point3D (p_x: real) (p_y: real) (p_z: real)

section \<open>The stirrup zoning loops\<close>

text \<open>
  Both \<^verbatim>\<open>ColumnCalculator._calculate_stirrups\<close> and
  \<^verbatim>\<open>StirrupPattern.generate_rectangular_pattern\<close> run the loop
  \<^verbatim>\<open>
  while current_y < limit:
      out.append(mk(current_y))
      current_y += spacing
  \<close>
  three times. The loop need not end (a spacing that is not positive never reaches the
  limit), so it is a partial function: \<open>None\<close> stands for a loop that never returns.
\<close>

partial_function (option) while_append ::
  "(real \<Rightarrow> 'a) \<Rightarrow> real \<Rightarrow> real \<Rightarrow> real \<Rightarrow> 'a list \<Rightarrow> 'a list option" where
  "while_append mk spacing limit current_y out =
     (if current_y < limit
      then while_append mk spacing limit (current_y + spacing) (out @ [mk current_y])
      else Some out)"

text \<open>\<^verbatim>\<open>ColumnCalculator._calculate_stirrups\<close> (column_calculator.py, lines 123-150).\<close>

definition calculate_stirrups ::
  "FloorData \<Rightarrow> real \<Rightarrow> real \<Rightarrow> real \<Rightarrow> (real \<times> string \<times> real) list option" where
  "calculate_stirrups fl base_y height beam_dep =
     (let net_height = height - beam_dep;
          third_height = net_height / 3
      in do {
        bottom \<leftarrow> while_append (\<lambda>cy. (cy, ''edge'', stirrup_diameter fl))
                    (edge_stirrup_spacing fl) (base_y + third_height)
                    (base_y + edge_stirrup_spacing fl) [];
        middle \<leftarrow> while_append (\<lambda>cy. (cy, ''mid'', stirrup_diameter fl))
                    (mid_stirrup_spacing fl) (base_y + 2 * third_height)
                    (base_y + third_height + mid_stirrup_spacing fl) bottom;
        while_append (\<lambda>cy. (cy, ''edge'', stirrup_diameter fl))
                    (edge_stirrup_spacing fl) (base_y + height)
                    (base_y + 2 * third_height + edge_stirrup_spacing fl) middle
      })"

text \<open>
  \<^verbatim>\<open>entities/stirrup.py\<close>: the dataclass \<^verbatim>\<open>Stirrup\<close> and its subclasses. The
  subclass and its own fields are the \<open>shape\<close> of the record.
\<close>

datatype StirrupShape =
    Plain
  | Rectangular real real real
  | Circular real real nat

record Stirrup =
  diameter :: real
  positions :: "Point3D list"
  elevation :: real
  shape :: StirrupShape

text \<open>\<^verbatim>\<open>RectangularStirrup.__init__(diameter, elevation, width, height, center_x)\<close>.\<close>

definition RectangularStirrup :: "real \<Rightarrow> real \<Rightarrow> real \<Rightarrow> real \<Rightarrow> real \<Rightarrow> Stirrup" where
  "RectangularStirrup d elev w h cx =
     (let left = cx - w / 2;
          right = cx + w / 2;
          bottom = elev - h / 2;
          top = elev + h / 2
      in \<lparr> diameter = d,
           positions = [Point3D left bottom 0, Point3D right bottom 0,
                        Point3D right top 0, Point3D left top 0],
           elevation = elev,
           shape = Rectangular w h cx \<rparr>)"

text \<open>\<^verbatim>\<open>StirrupPattern\<close>: its field \<^verbatim>\<open>diameter\<close> is \<open>pattern_diameter\<close> here.\<close>

record StirrupPattern =
  stirrups :: "Stirrup list"
  pattern_diameter :: real
  edge_spacing :: real
  mid_spacing :: real

definition StirrupPattern_init :: StirrupPattern where
  "StirrupPattern_init =
     \<lparr> stirrups = [], pattern_diameter = 8, edge_spacing = 100, mid_spacing = 150 \<rparr>"

text \<open>
  \<^verbatim>\<open>StirrupPattern.generate_rectangular_pattern\<close> (stirrup.py, lines 116-151): the
  pattern is the state, returned updated. \<^verbatim>\<open>self.stirrups.clear()\<close> is the empty
  list the first loop starts from.
\<close>

definition generate_rectangular_pattern ::
  "StirrupPattern \<Rightarrow> real \<Rightarrow> real \<Rightarrow> real \<Rightarrow> real \<Rightarrow> real \<Rightarrow> real \<Rightarrow> StirrupPattern option" where
  "generate_rectangular_pattern self start_y height beam_dep width col_width center_x =
     (let cleared = [];
          net_height = height - beam_dep;
          third_height = net_height / 3;
          mk = (\<lambda>cy. RectangularStirrup (pattern_diameter self) cy width col_width center_x)
      in do {
        bottom \<leftarrow> while_append mk (edge_spacing self) (start_y + third_height)
                    (start_y + edge_spacing self) cleared;
        middle \<leftarrow> while_append mk (mid_spacing self) (start_y + 2 * third_height)
                    (start_y + third_height + mid_spacing self) bottom;
        top \<leftarrow> while_append mk (edge_spacing self) (start_y + height)
                    (start_y + 2 * third_height + edge_spacing self) middle;
        Some (self\<lparr>stirrups := top\<rparr>)
      })"

section \<open>The positions a zone loop visits\<close>

text \<open>
  The positions of one zone as a total function, used to reason about the loop: it is
  empty unless the spacing is positive.
\<close>

function zone_positions :: "real \<Rightarrow> real \<Rightarrow> real \<Rightarrow> real list" where
  "zone_positions spacing limit current_y =
     (if 0 < spacing \<and> current_y < limit
      then current_y # zone_positions spacing limit (current_y + spacing)
      else [])"
  by pat_completeness auto
termination
proof (relation "measure (\<lambda>(spacing, limit, current_y). nat \<lceil>(limit - current_y) / spacing\<rceil>)")
  show "wf (measure (\<lambda>(spacing, limit, current_y). nat \<lceil>(limit - current_y) / spacing\<rceil>))"
    by simp
next
  fix spacing limit current_y :: real
  assume a: "0 < spacing \<and> current_y < limit"
  then have pos: "0 < (limit - current_y) / spacing" by simp
  have "(limit - (current_y + spacing)) / spacing = (limit - current_y) / spacing - 1"
    using a by (simp add: field_simps)
  then have "\<lceil>(limit - (current_y + spacing)) / spacing\<rceil> = \<lceil>(limit - current_y) / spacing\<rceil> - 1"
    by simp
  moreover have "0 < \<lceil>(limit - current_y) / spacing\<rceil>" using pos by simp
  ultimately show "((spacing, limit, current_y + spacing), (spacing, limit, current_y))
      \<in> measure (\<lambda>(spacing, limit, current_y). nat \<lceil>(limit - current_y) / spacing\<rceil>)"
    by simp
qed

section \<open>Double-precision arithmetic\<close>

text \<open>
  A double has a significand of 53 bits. The result of an operation on doubles is the
  exact result rounded to the nearest double, a tie going to the even significand (IEEE
  754 binary64, the arithmetic of a Python float). For \<open>x\<close> with
  \<open>2 powi e \<le> \<bar>x\<bar> < 2 powi (e + 1)\<close> the doubles around \<open>x\<close> are the multiples of
  \<open>2 powi (e - 52)\<close>. The exponent is not bounded here: overflow to infinity and
  subnormal numbers are outside the model.
\<close>

definition round_half_even :: "real \<Rightarrow> int" where
  "round_half_even t =
     (let f = \<lfloor>t\<rfloor>; d = t - of_int f
      in if d < 1 / 2 then f else if 1 / 2 < d then f + 1 else if even f then f else f + 1)"

definition round_double :: "real \<Rightarrow> real" where
  "round_double x =
     (if x = 0 then 0
      else sgn x * (of_int (round_half_even (\<bar>x\<bar> / 2 powi (\<lfloor>log 2 \<bar>x\<bar>\<rfloor> - 52)))
                    * 2 powi (\<lfloor>log 2 \<bar>x\<bar>\<rfloor> - 52)))"

text \<open>Python's \<^verbatim>\<open>a + b\<close>, \<^verbatim>\<open>a - b\<close> and \<^verbatim>\<open>a / b\<close> on floats (\<open>b\<close> not zero).\<close>

definition double_add :: "real \<Rightarrow> real \<Rightarrow> real" where
  "double_add a b = round_double (a + b)"

definition double_sub :: "real \<Rightarrow> real \<Rightarrow> real" where
  "double_sub a b = round_double (a - b)"

definition double_div :: "real \<Rightarrow> real \<Rightarrow> real" where
  "double_div a b = round_double (a / b)"

section \<open>The geometry calculator\<close>

text \<open>
  \<^verbatim>\<open>column_calculator.py\<close>: the dataclasses \<^verbatim>\<open>ColumnGeometry\<close> (its field
  \<^verbatim>\<open>total_height\<close> is \<open>column_total_height\<close> here, \<^verbatim>\<open>FloorData\<close> having a field of
  that name) and \<^verbatim>\<open>RebarLayout\<close>.
\<close>

record ColumnGeometry =
  base_point :: "real \<times> real \<times> real"
  column_total_height :: real
  floor_heights :: "real list"
  floor_levels :: "real list"
  column_boundaries :: "(real \<times> real) list"


text \<open>
  The loop of \<^verbatim>\<open>calculate_column_geometry\<close> that builds \<^verbatim>\<open>floor_levels\<close>:
  \<^verbatim>\<open>for height in floor_heights: current_height += height; floor_levels.append(current_height)\<close>.
\<close>

fun floor_levels_loop :: "real list \<Rightarrow> real \<Rightarrow> real list \<Rightarrow> real list" where
  "floor_levels_loop [] current_height levels = levels"
| "floor_levels_loop (height # heights) current_height levels =
     floor_levels_loop heights (double_add current_height height)
       (levels @ [double_add current_height height])"

text \<open>
  \<^verbatim>\<open>ColumnCalculator.calculate_column_geometry\<close> (lines 32-60), in double arithmetic.
  \<^verbatim>\<open>sum(floor_heights)\<close> adds from the left, starting at 0 (CPython up to 3.11; later
  versions compensate the rounding errors of the sum).
\<close>

definition calculate_column_geometry ::
  "FloorData list \<Rightarrow> ColumnSettings \<Rightarrow> real \<times> real \<times> real \<Rightarrow> ColumnGeometry" where
  "calculate_column_geometry floors settings base_pt =
     (case base_pt of (base_x, base_y, base_z) \<Rightarrow>
        let heights = map total_height floors
        in \<lparr> base_point = base_pt,
             column_total_height = foldl double_add 0 heights,
             floor_heights = heights,
             floor_levels = floor_levels_loop heights base_y [base_y],
             column_boundaries =
               map (\<lambda>fl. (double_sub base_x (double_div (column_length fl) 2),
                          double_add base_x (double_div (column_length fl) 2))) floors \<rparr>)"





text \<open>
  \<^verbatim>\<open>ColumnCalculator._calculate_section_rebar_positions\<close> (lines 170-198). A division
  by a count minus one that is zero raises ZeroDivisionError. The nested loops
  \<^verbatim>\<open>for i in range(m): for j in range(n)\<close> visit \<open>List.product [0..m - 1] [0..n - 1]\<close>
  in order.
\<close>

definition calculate_section_rebar_positions :: "FloorData \<Rightarrow> error + (real \<times> real) list" where
  "calculate_section_rebar_positions fl =
     (let len = column_length fl;
          width = (if column_width fl > 0 then column_width fl else len);
          cover = 25
      in if column_width fl > 0
         then if rebar_amount_x fl - 1 = 0 then Inl ZeroDivisionError
              else let x_spacing = (len - 2 * cover) / real_of_int (rebar_amount_x fl - 1)
              in if rebar_amount_y fl - 1 = 0 then Inl ZeroDivisionError
              else let y_spacing = (width - 2 * cover) / real_of_int (rebar_amount_y fl - 1)
              in Inr (map (\<lambda>(i, j). (cover + real_of_int i * x_spacing,
                                        cover + real_of_int j * y_spacing))
                        (List.product [0..rebar_amount_x fl - 1] [0..rebar_amount_y fl - 1]))
         else let radius = len / 2 - cover
              in if rebar_amount_x fl = 0 then Inl ZeroDivisionError
              else let angle_step = 2 * pi / real_of_int (rebar_amount_x fl)
              in Inr (map (\<lambda>i. (len / 2 + radius * cos (real_of_int i * angle_step),
                                   len / 2 + radius * sin (real_of_int i * angle_step)))
                        [0..rebar_amount_x fl - 1]))"

text \<open>
  The dictionary returned by \<^verbatim>\<open>calculate_section_dimensions\<close> (lines 157-168), with
  its keys \<^verbatim>\<open>length\<close>, \<^verbatim>\<open>width\<close>, \<^verbatim>\<open>scale\<close>, \<^verbatim>\<open>rebar_positions\<close>, \<^verbatim>\<open>is_circular\<close>.
\<close>

record SectionDimensions =
  sd_length :: real
  sd_width :: real
  sd_scale :: real
  sd_rebar_positions :: "(real \<times> real) list"
  sd_is_circular :: bool

definition calculate_section_dimensions :: "FloorData \<Rightarrow> real \<Rightarrow> error + SectionDimensions" where
  "calculate_section_dimensions fl scl =
     (let len = column_length fl;
          width = (if column_width fl > 0 then column_width fl else len)
      in case calculate_section_rebar_positions fl of
           Inl e \<Rightarrow> Inl e
         | Inr ps \<Rightarrow> Inr \<lparr> sd_length = len, sd_width = width, sd_scale = scl,
                           sd_rebar_positions = ps,
                           sd_is_circular = (column_width fl = 0) \<rparr>)"

section \<open>The entity model\<close>

text \<open>
  \<^verbatim>\<open>entities/rebar.py\<close>: the dataclass \<^verbatim>\<open>Rebar\<close> (its field \<^verbatim>\<open>diameter\<close> is
  \<open>bar_diameter\<close> here) with the property \<^verbatim>\<open>length\<close>, and the class \<^verbatim>\<open>RebarLayout\<close>
  of that module (here \<open>RebarLayoutEntity\<close>, its list of main bars \<open>entity_main_bars\<close>: the
  calculator has a dataclass of the same name).
\<close>

record Rebar =
  bar_diameter :: real
  start_point :: Point3D
  end_point :: Point3D
  grade :: string

definition rebar_length :: "Rebar \<Rightarrow> real" where
  "rebar_length bar =
     (let dx = p_x (end_point bar) - p_x (start_point bar);
          dy = p_y (end_point bar) - p_y (start_point bar);
          dz = p_z (end_point bar) - p_z (start_point bar)
      in sqrt (dx\<^sup>2 + dy\<^sup>2 + dz\<^sup>2))"

record RebarLayoutEntity =
  entity_main_bars :: "Rebar list"
  links :: "Rebar list"
  main_bars_x :: int
  main_bars_y :: int

definition main_bars_count :: "RebarLayoutEntity \<Rightarrow> int" where
  "main_bars_count layout = int (length (entity_main_bars layout))"

text \<open>
  The names bound at module level in \<^verbatim>\<open>entities/rebar.py\<close>: its imports (lines 5-7) and
  its classes. \<^verbatim>\<open>get_total_weight\<close> reads the global \<^verbatim>\<open>math\<close>; a name that is not
  bound raises NameError when it is read.
\<close>

definition rebar_module_names :: "string list" where
  "rebar_module_names =
     [''dataclass'', ''List'', ''Tuple'', ''Point3D'', ''Rebar'', ''RebarLayout'', ''StirrupLayout'']"

definition math_pi :: "string list \<Rightarrow> error + real" where
  "math_pi names = (if ''math'' \<in> set names then Inr pi else Inl NameError)"

text \<open>
  \<^verbatim>\<open>RebarLayout.get_total_weight\<close> (rebar.py, lines 64-73), in a module whose global
  names are \<open>names\<close>. The loop body reads \<^verbatim>\<open>math.pi\<close> for each bar.
\<close>

fun total_volume_loop :: "string list \<Rightarrow> Rebar list \<Rightarrow> real \<Rightarrow> error + real" where
  "total_volume_loop names [] total_volume = Inr total_volume"
| "total_volume_loop names (bar # bars) total_volume =
     (case math_pi names of
        Inl e \<Rightarrow> Inl e
      | Inr p \<Rightarrow>
          (let area = p * (bar_diameter bar / 2)\<^sup>2;
               volume = area * rebar_length bar / 1000
           in total_volume_loop names bars (total_volume + volume)))"

definition get_total_weight :: "string list \<Rightarrow> RebarLayoutEntity \<Rightarrow> real \<Rightarrow> error + real" where
  "get_total_weight names layout density =
     (case total_volume_loop names (entity_main_bars layout @ links layout) 0 of
        Inl e \<Rightarrow> Inl e
      | Inr total_volume \<Rightarrow> Inr (total_volume * density))"

text \<open>
  \<^verbatim>\<open>entities/column.py\<close>: \<^verbatim>\<open>ColumnFloor\<close> (fields \<^verbatim>\<open>name\<close>, \<^verbatim>\<open>height\<close>, \<^verbatim>\<open>length\<close>,
  \<^verbatim>\<open>width\<close>, \<^verbatim>\<open>reinforcement\<close>; the field \<^verbatim>\<open>stirrups\<close>, which no function below
  reads, is left out) and \<^verbatim>\<open>ColumnSection\<close> (fields \<^verbatim>\<open>floor\<close>, \<^verbatim>\<open>scale\<close>,
  \<^verbatim>\<open>rebar_positions\<close>).
\<close>

record ColumnFloor =
  cf_name :: string
  cf_height :: real
  cf_length :: real
  cf_width :: real
  reinforcement :: "RebarLayoutEntity option"

definition is_circular :: "ColumnFloor \<Rightarrow> bool" where
  "is_circular fl = (cf_width fl = 0)"

record ColumnSection =
  section_floor :: ColumnFloor
  cs_scale :: real
  rebar_positions :: "Point3D list"

text \<open>
  \<^verbatim>\<open>ColumnSection._calculate_rectangular_positions\<close> (column.py, lines 145-165): the
  section is the state, returned with the positions appended. The \<^verbatim>\<open>continue\<close> at a
  corner of the grid is the filter.
\<close>

definition calculate_rectangular_positions :: "ColumnSection \<Rightarrow> real \<Rightarrow> error + ColumnSection" where
  "calculate_rectangular_positions self cover =
     (case reinforcement (section_floor self) of
        None \<Rightarrow> Inr self
      | Some layout \<Rightarrow>
          (let x_count = main_bars_x layout;
               y_count = main_bars_y layout
           in if x_count > 0 \<and> y_count > 0
              then if x_count - 1 = 0 then Inl ZeroDivisionError
                   else let x_spacing = (cf_length (section_floor self) - 2 * cover)
                                          / real_of_int (x_count - 1)
                   in if y_count - 1 = 0 then Inl ZeroDivisionError
                   else let y_spacing = (cf_width (section_floor self) - 2 * cover)
                                          / real_of_int (y_count - 1)
                   in Inr (self\<lparr>rebar_positions := rebar_positions self @
                        map (\<lambda>(i, j). Point3D (cover + real_of_int i * x_spacing)
                                               (cover + real_of_int j * y_spacing) 0)
                          (filter (\<lambda>(i, j). \<not> ((i = 0 \<or> i = x_count - 1)
                                                 \<and> (j = 0 \<or> j = y_count - 1)))
                             (List.product [0..x_count - 1] [0..y_count - 1]))\<rparr>)
              else Inr self))"

text \<open>\<^verbatim>\<open>ColumnSection._calculate_circular_positions\<close> (column.py, lines 130-143).\<close>

definition calculate_circular_positions :: "ColumnSection \<Rightarrow> real \<Rightarrow> error + ColumnSection" where
  "calculate_circular_positions self cover =
     (let radius = cf_length (section_floor self) / 2 - cover;
          center_x = cf_length (section_floor self) / 2;
          center_y = (if cf_width (section_floor self) > 0
                      then cf_width (section_floor self) / 2 else center_x)
      in case reinforcement (section_floor self) of
           None \<Rightarrow> Inr self
         | Some layout \<Rightarrow>
             if main_bars_count layout = 0 then Inl ZeroDivisionError
             else let angle_step = 2 * pi / real_of_int (main_bars_count layout)
             in Inr (self\<lparr>rebar_positions := rebar_positions self @
                  map (\<lambda>i. Point3D (center_x + radius * cos (real_of_int i * angle_step))
                                    (center_y + radius * sin (real_of_int i * angle_step)) 0)
                    [0..main_bars_count layout - 1]\<rparr>))"

text \<open>\<^verbatim>\<open>ColumnSection.calculate_rebar_positions\<close> (column.py, lines 121-128).\<close>

definition calculate_rebar_positions :: "ColumnSection \<Rightarrow> real \<Rightarrow> error + ColumnSection" where
  "calculate_rebar_positions self cover =
     (let cleared = self\<lparr>rebar_positions := []\<rparr>
      in if is_circular (section_floor cleared)
         then calculate_circular_positions cleared cover
         else calculate_rectangular_positions cleared cover)"

section \<open>Validation\<close>

text \<open>
  \<^verbatim>\<open>utils/validation.py\<close>, class \<^verbatim>\<open>DataValidator\<close>. Its inputs are dictionaries
  \<^verbatim>\<open>Dict[str, Any]\<close>: a value is \<^verbatim>\<open>None\<close>, a number (int or float, both read as a
  real) or a string. An ordering comparison of a number with \<^verbatim>\<open>None\<close> or a string
  raises TypeError. The messages, f-strings in the source, are kept as structured values.
\<close>

datatype pyval = PNone | PNum real | PStr string

text \<open>
  The names bound at module level in \<^verbatim>\<open>utils/validation.py\<close> when the body of
  \<^verbatim>\<open>class DataValidator\<close> is executed: the imports (lines 5-10) and the class
  \<^verbatim>\<open>LicenseManager\<close>. A \<^verbatim>\<open>def\<close> evaluates its annotations when it is executed
  (CPython up to 3.13), and these read \<^verbatim>\<open>Dict\<close>, \<^verbatim>\<open>Any\<close> and, for the return types
  of \<^verbatim>\<open>_validate_settings\<close>, \<^verbatim>\<open>_validate_floor\<close> and \<^verbatim>\<open>_check_floor_warnings\<close>
  (lines 149, 173, 216), \<^verbatim>\<open>List\<close>. A name that is not bound raises NameError: the
  class is then not created and none of its methods can be called.
\<close>

definition validation_module_names :: "string list" where
  "validation_module_names =
     [''subprocess'', ''platform'', ''hashlib'', ''logging'', ''Set'', ''Optional'', ''Dict'',
      ''Any'', ''Path'', ''LicenseManager'']"

definition DataValidator_annotations :: "string list" where
  "DataValidator_annotations = [''Dict'', ''Any'', ''List'']"

definition DataValidator_class :: "string list \<Rightarrow> error + unit" where
  "DataValidator_class names =
     (if list_all (\<lambda>name. name \<in> set names) DataValidator_annotations
      then Inr () else Inl NameError)"

type_synonym pydict = "string \<rightharpoonup> pyval"

datatype message =
    MissingSetting string
  | BeamDepthOutOfRange pyval
  | ConcreteCoverOutOfRange pyval
  | FloorMissing nat string
  | HeightOutOfRange nat pyval
  | LengthOutOfRange nat pyval
  | WidthOutOfRange nat pyval
  | RebarDiameterOutOfRange nat pyval
  | StirrupDiameterOutOfRange nat pyval
  | RebarAmountMismatch nat pyval pyval
  | CoverTooLarge nat
  | EdgeSpacingSmall nat
  | MidSpacingLarge nat

text \<open>\<^verbatim>\<open>DataValidator.limits\<close> (lines 116-124), as (min, max).\<close>

definition limits :: "string \<rightharpoonup> real \<times> real" where
  "limits = map_of
     [(''column_length'', (100, 5000)),
      (''column_width'', (0, 5000)),
      (''floor_height'', (2000, 50000)),
      (''rebar_diameter'', (6, 50)),
      (''stirrup_diameter'', (6, 16)),
      (''concrete_cover'', (20, 100)),
      (''spacing'', (50, 500))]"

text \<open>\<^verbatim>\<open>DataValidator._is_in_range\<close> (lines 235-240).\<close>

definition is_in_range :: "pyval \<Rightarrow> string \<Rightarrow> error + bool" where
  "is_in_range val value_type =
     (case limits value_type of
        Some (lo, hi) \<Rightarrow>
          (case val of PNum v \<Rightarrow> Inr (lo \<le> v \<and> v \<le> hi) | _ \<Rightarrow> Inl TypeError)
      | None \<Rightarrow> Inr True)"

text \<open>
  \<^verbatim>\<open>DataValidator._calculate_expected_rebars\<close> (lines 242-249), on numbers; its
  annotation takes and returns \<^verbatim>\<open>int\<close>.
\<close>

definition calculate_expected_rebars :: "'a::linordered_idom \<Rightarrow> 'a \<Rightarrow> 'a" where
  "calculate_expected_rebars amount_x amount_y =
     (if amount_x > 0 \<and> amount_y > 0 then 2 * amount_x + 2 * max 0 (amount_y - 2)
      else if amount_x > 0 \<and> amount_y = 0 then amount_x
      else 0)"

text \<open>
  The same function on dictionary values: \<^verbatim>\<open>amount_x > 0\<close> is evaluated first and
  raises on a value that is not a number; \<^verbatim>\<open>amount_y > 0\<close> is evaluated only when
  \<^verbatim>\<open>amount_x > 0\<close> holds.
\<close>

fun calculate_expected_rebars_val :: "pyval \<Rightarrow> pyval \<Rightarrow> error + pyval" where
  "calculate_expected_rebars_val (PNum x) (PNum y) = Inr (PNum (calculate_expected_rebars x y))"
| "calculate_expected_rebars_val (PNum x) y = (if x > 0 then Inl TypeError else Inr (PNum 0))"
| "calculate_expected_rebars_val x y = Inl TypeError"

text \<open>Running two checks in a row: the first exception ends the call, the lists add up.\<close>

definition and_then :: "error + 'a list \<Rightarrow> error + 'a list \<Rightarrow> error + 'a list" where
  "and_then first second =
     (case first of
        Inl e \<Rightarrow> Inl e
      | Inr xs \<Rightarrow> (case second of Inl e \<Rightarrow> Inl e | Inr ys \<Rightarrow> Inr (xs @ ys)))"

text \<open>
  \<^verbatim>\<open>if key in d: if not self._is_in_range(d[key], value_type): errors.append(msg)\<close>.
\<close>

definition range_check :: "pydict \<Rightarrow> string \<Rightarrow> string \<Rightarrow> (pyval \<Rightarrow> message) \<Rightarrow> error + message list" where
  "range_check d key value_type msg =
     (case d key of
        None \<Rightarrow> Inr []
      | Some v \<Rightarrow>
          (case is_in_range v value_type of
             Inl e \<Rightarrow> Inl e
           | Inr ok \<Rightarrow> Inr (if ok then [] else [msg v])))"

text \<open>
  \<^verbatim>\<open>for field in required_fields: if field not in d or d[field] is None: errors.append(..)\<close>.
\<close>

definition missing_fields :: "pydict \<Rightarrow> string list \<Rightarrow> (string \<Rightarrow> message) \<Rightarrow> message list" where
  "missing_fields d required msg =
     map msg (filter (\<lambda>field. d field = None \<or> d field = Some PNone) required)"

text \<open>
  \<^verbatim>\<open>DataValidator._validate_settings\<close> (lines 149-171), in a module whose global
  names are \<open>names\<close>, as are the methods below.
\<close>

definition validate_settings :: "string list \<Rightarrow> pydict \<Rightarrow> error + message list" where
  "validate_settings names settings =
     (case DataValidator_class names of Inl e \<Rightarrow> Inl e | Inr u \<Rightarrow>
     and_then (Inr (missing_fields settings
                 [''beam_depth'', ''beam_extension'', ''concrete_cover'',
                  ''scale'', ''spacing_between_columns''] MissingSetting))
    (and_then (range_check settings ''beam_depth'' ''floor_height'' BeamDepthOutOfRange)
              (range_check settings ''concrete_cover'' ''concrete_cover'' ConcreteCoverOutOfRange)))"

text \<open>\<^verbatim>\<open>DataValidator._validate_floor\<close> (lines 173-214).\<close>

definition validate_floor :: "string list \<Rightarrow> pydict \<Rightarrow> nat \<Rightarrow> error + message list" where
  "validate_floor names fl floor_index =
     (case DataValidator_class names of Inl e \<Rightarrow> Inl e | Inr u \<Rightarrow>
     and_then (Inr (missing_fields fl
                 [''total_height'', ''column_length'', ''floor_name'',
                  ''rebar_amount'', ''rebar_diameter''] (FloorMissing (floor_index + 1))))
    (and_then (range_check fl ''total_height'' ''floor_height'' (HeightOutOfRange (floor_index + 1)))
    (and_then (range_check fl ''column_length'' ''column_length'' (LengthOutOfRange (floor_index + 1)))
    (and_then (case fl ''column_width'' of
                 None \<Rightarrow> Inr []
               | Some (PNum w) \<Rightarrow>
                   if w > 0
                   then range_check fl ''column_width'' ''column_width''
                          (WidthOutOfRange (floor_index + 1))
                   else Inr []
               | Some _ \<Rightarrow> Inl TypeError)
    (and_then (range_check fl ''rebar_diameter'' ''rebar_diameter''
                 (RebarDiameterOutOfRange (floor_index + 1)))
    (and_then (range_check fl ''stirrup_diameter'' ''stirrup_diameter''
                 (StirrupDiameterOutOfRange (floor_index + 1)))
              (case (fl ''rebar_amount'', fl ''rebar_amount_x'', fl ''rebar_amount_y'') of
                 (Some amount, Some amount_x, Some amount_y) \<Rightarrow>
                   (case calculate_expected_rebars_val amount_x amount_y of
                      Inl e \<Rightarrow> Inl e
                    | Inr expected \<Rightarrow>
                        Inr (if amount \<noteq> expected
                             then [RebarAmountMismatch (floor_index + 1) expected amount]
                             else []))
               | _ \<Rightarrow> Inr [])))))))"

text \<open>
  \<^verbatim>\<open>cover * 2 >= floor['column_length']\<close> on dictionary values: a string times two is
  the string twice, two strings compare in lexicographic order, and any other pair with a
  value that is not a number raises TypeError.
\<close>

fun twice_ge :: "pyval \<Rightarrow> pyval \<Rightarrow> error + bool" where
  "twice_ge (PNum c) (PNum l) = Inr (c * 2 \<ge> l)"
| "twice_ge (PStr c) (PStr l) = Inr (c @ c \<ge> l)"
| "twice_ge c l = Inl TypeError"

text \<open>\<^verbatim>\<open>value < bound\<close> and \<^verbatim>\<open>value > bound\<close> against a number of the source.\<close>

fun num_less :: "pyval \<Rightarrow> real \<Rightarrow> error + bool" where
  "num_less (PNum v) bound = Inr (v < bound)"
| "num_less v bound = Inl TypeError"

fun num_greater :: "pyval \<Rightarrow> real \<Rightarrow> error + bool" where
  "num_greater (PNum v) bound = Inr (v > bound)"
| "num_greater v bound = Inl TypeError"

text \<open>\<^verbatim>\<open>DataValidator._check_floor_warnings\<close> (lines 216-233).\<close>

definition check_floor_warnings :: "string list \<Rightarrow> pydict \<Rightarrow> nat \<Rightarrow> error + message list" where
  "check_floor_warnings names fl floor_index =
     (case DataValidator_class names of Inl e \<Rightarrow> Inl e | Inr u \<Rightarrow>
     and_then (case (fl ''column_length'', fl ''column_width'') of
                 (Some len, Some w) \<Rightarrow>
                   (let cover = (case fl ''concrete_cover'' of None \<Rightarrow> PNum 25 | Some c \<Rightarrow> c)
                    in case twice_ge cover len of
                         Inl e \<Rightarrow> Inl e
                       | Inr large \<Rightarrow> Inr (if large then [CoverTooLarge (floor_index + 1)] else []))
               | _ \<Rightarrow> Inr [])
              (case (fl ''edge_stirrup_spacing'', fl ''mid_stirrup_spacing'') of
                 (Some edge, Some mid) \<Rightarrow>
                   and_then (case num_less edge 75 of
                               Inl e \<Rightarrow> Inl e
                             | Inr small \<Rightarrow>
                                 Inr (if small then [EdgeSpacingSmall (floor_index + 1)] else []))
                            (case num_greater mid 300 of
                               Inl e \<Rightarrow> Inl e
                             | Inr large \<Rightarrow>
                                 Inr (if large then [MidSpacingLarge (floor_index + 1)] else []))
               | _ \<Rightarrow> Inr []))"

text \<open>
  \<^verbatim>\<open>DataValidator.validate_column_data\<close> (lines 126-147). The argument is a dictionary
  read with \<^verbatim>\<open>data.get('settings', {})\<close> and \<^verbatim>\<open>data.get('floors', [])\<close>; the result is
  the dictionary with the keys \<^verbatim>\<open>is_valid\<close>, \<^verbatim>\<open>errors\<close>, \<^verbatim>\<open>warnings\<close>.
\<close>

record ColumnInput =
  settings_entry :: "pydict option"
  floors_entry :: "pydict list option"

record ValidationResult =
  is_valid :: bool
  errors :: "message list"
  warnings :: "message list"

fun validate_floors_loop ::
  "string list \<Rightarrow> pydict list \<Rightarrow> nat \<Rightarrow> message list \<Rightarrow> message list
     \<Rightarrow> error + message list \<times> message list" where
  "validate_floors_loop names [] i errs warns = Inr (errs, warns)"
| "validate_floors_loop names (fl # rest) i errs warns =
     (case validate_floor names fl i of
        Inl e \<Rightarrow> Inl e
      | Inr floor_errors \<Rightarrow>
          (case check_floor_warnings names fl i of
             Inl e \<Rightarrow> Inl e
           | Inr floor_warnings \<Rightarrow>
               validate_floors_loop names rest (i + 1) (errs @ floor_errors)
                 (warns @ floor_warnings)))"

definition validate_column_data :: "string list \<Rightarrow> ColumnInput \<Rightarrow> error + ValidationResult" where
  "validate_column_data names data =
     (case DataValidator_class names of Inl e \<Rightarrow> Inl e | Inr u \<Rightarrow>
     (case validate_settings names
             (case settings_entry data of None \<Rightarrow> Map.empty | Some s \<Rightarrow> s) of
        Inl e \<Rightarrow> Inl e
      | Inr settings_errors \<Rightarrow>
          (case validate_floors_loop names
                  (case floors_entry data of None \<Rightarrow> [] | Some fs \<Rightarrow> fs)
                  0 settings_errors [] of
             Inl e \<Rightarrow> Inl e
           | Inr (errs, warns) \<Rightarrow>
               Inr \<lparr> is_valid = (length errs = 0), errors = errs, warnings = warns \<rparr>)))"

section \<open>Example inputs\<close>

definition example_floor :: FloorData where
  "example_floor =
     \<lparr> total_height = 3000, column_length = 400, column_width = 400,
       floor_name = ''F1'', rebar_amount = 12, rebar_amount_x = 4, rebar_amount_y = 4,
       rebar_diameter = 20, edge_stirrup_spacing = 300, mid_stirrup_spacing = 400,
       stirrup_diameter = 8, section_number = 0 \<rparr>"

definition example_pattern :: StirrupPattern where
  "example_pattern = StirrupPattern_init\<lparr>edge_spacing := 300, mid_spacing := 400\<rparr>"

definition example_upper_floor :: FloorData where
  "example_upper_floor =
     example_floor\<lparr>total_height := 2800, column_length := 300, floor_name := ''F2'',
                    rebar_diameter := 16\<rparr>"

definition example_settings :: ColumnSettings where
  "example_settings =
     \<lparr> beam_depth = 600, beam_extension = 500, concrete_cover = 25, scale = 1,
       spacing_between_columns = 2000, foundation_depth = 1000, foundation_cover = 50,
       section_scale = 1, is_foundation_string = False \<rparr>"

definition single_bar_layout :: RebarLayoutEntity where
  "single_bar_layout =
     \<lparr> entity_main_bars =
         [\<lparr> bar_diameter = 20, start_point = Point3D 0 0 0, end_point = Point3D 0 3000 0,
            grade = ''500'' \<rparr>],
       links = [], main_bars_x = 0, main_bars_y = 0 \<rparr>"

definition example_section :: ColumnSection where
  "example_section =
     \<lparr> section_floor =
         \<lparr> cf_name = ''F1'', cf_height = 3000, cf_length = 400, cf_width = 400,
           reinforcement =
             Some \<lparr> entity_main_bars = [], links = [], main_bars_x = 4, main_bars_y = 4 \<rparr> \<rparr>,
       cs_scale = 1, rebar_positions = [] \<rparr>"

section \<open>Lap descriptors as the specification states them\<close>


section \<open>Dictionaries whose compared values are numbers\<close>

text \<open>
  The validator raises TypeError only when it compares a value that is not a number.
  These predicates say that the values it compares, where present, are numbers.
\<close>

definition numeric_at :: "pydict \<Rightarrow> string \<Rightarrow> bool" where
  "numeric_at d key = (case d key of None \<Rightarrow> True | Some (PNum v) \<Rightarrow> True | Some _ \<Rightarrow> False)"

definition numeric_settings :: "pydict \<Rightarrow> bool" where
  "numeric_settings s = list_all (numeric_at s) [''beam_depth'', ''concrete_cover'']"

definition numeric_floor :: "pydict \<Rightarrow> bool" where
  "numeric_floor fl = list_all (numeric_at fl)
     [''total_height'', ''column_length'', ''column_width'', ''rebar_diameter'',
      ''stirrup_diameter'', ''rebar_amount_x'', ''rebar_amount_y'', ''concrete_cover'',
      ''edge_stirrup_spacing'', ''mid_stirrup_spacing'']"

definition example_settings_dict :: pydict where
  "example_settings_dict = map_of
     [(''beam_depth'', PNum 2000), (''beam_extension'', PNum 500), (''concrete_cover'', PNum 25),
      (''scale'', PNum 1), (''spacing_between_columns'', PNum 2000)]"

definition example_floor_dict :: pydict where
  "example_floor_dict = map_of
     [(''total_height'', PNum 3000), (''column_length'', PNum 400), (''column_width'', PNum 400),
      (''floor_name'', PStr ''F1''), (''rebar_amount'', PNum 12), (''rebar_amount_x'', PNum 4),
      (''rebar_amount_y'', PNum 4), (''rebar_diameter'', PNum 20),
      (''edge_stirrup_spacing'', PNum 100), (''mid_stirrup_spacing'', PNum 150),
      (''stirrup_diameter'', PNum 8)]"

definition mismatch_floor_dict :: pydict where
  "mismatch_floor_dict = example_floor_dict(''rebar_amount'' \<mapsto> PNum 10)"

definition single_axis_floor :: FloorData where
  "single_axis_floor = example_floor\<lparr>rebar_amount := 4, rebar_amount_y := 0\<rparr>"

definition one_bar_floor :: FloorData where
  "one_bar_floor = example_floor\<lparr>rebar_amount := 6, rebar_amount_x := 1\<rparr>"


text \<open>The double nearest to 0.1, the value of Python's \<^verbatim>\<open>0.1\<close>.\<close>

definition double_tenth :: real where
  "double_tenth = 3602879701896397 / 2 ^ 55"

section \<open>Properties of the zone loops\<close>

declare zone_positions.simps [simp del]

lemma while_append_zone:
  "0 < spacing \<Longrightarrow>
   while_append mk spacing limit current_y out
     = Some (out @ map mk (zone_positions spacing limit current_y))"
proof (induction spacing limit current_y arbitrary: out rule: zone_positions.induct)
  case (1 spacing limit current_y)
  show ?case
  proof (cases "current_y < limit")
    case True
    with "1.prems" have c: "0 < spacing \<and> current_y < limit" by simp
    have "while_append mk spacing limit current_y out
            = while_append mk spacing limit (current_y + spacing) (out @ [mk current_y])"
      using True by (subst while_append.simps) simp
    also have "\<dots> = Some ((out @ [mk current_y])
                        @ map mk (zone_positions spacing limit (current_y + spacing)))"
      using "1.IH" [OF c "1.prems"] .
    also have "\<dots> = Some (out @ map mk (zone_positions spacing limit current_y))"
      using c by (subst (2) zone_positions.simps) simp
    finally show ?thesis .
  next
    case False
    then show ?thesis
      by (subst while_append.simps, subst zone_positions.simps) simp
  qed
qed


lemma calculate_stirrups_zones:
  assumes "0 < edge_stirrup_spacing fl" "0 < mid_stirrup_spacing fl"
  shows "calculate_stirrups fl base_y height beam_dep =
     Some (map (\<lambda>cy. (cy, ''edge'', stirrup_diameter fl))
             (zone_positions (edge_stirrup_spacing fl) (base_y + (height - beam_dep) / 3)
                (base_y + edge_stirrup_spacing fl))
         @ map (\<lambda>cy. (cy, ''mid'', stirrup_diameter fl))
             (zone_positions (mid_stirrup_spacing fl) (base_y + 2 * ((height - beam_dep) / 3))
                (base_y + (height - beam_dep) / 3 + mid_stirrup_spacing fl))
         @ map (\<lambda>cy. (cy, ''edge'', stirrup_diameter fl))
             (zone_positions (edge_stirrup_spacing fl) (base_y + height)
                (base_y + 2 * ((height - beam_dep) / 3) + edge_stirrup_spacing fl)))"
  using assms by (simp add: calculate_stirrups_def Let_def while_append_zone)

lemma generate_rectangular_pattern_zones:
  assumes "0 < edge_spacing self" "0 < mid_spacing self"
  shows "generate_rectangular_pattern self start_y height beam_dep width col_width center_x =
     Some (self\<lparr>stirrups :=
       map (\<lambda>cy. RectangularStirrup (pattern_diameter self) cy width col_width center_x)
         (zone_positions (edge_spacing self) (start_y + (height - beam_dep) / 3)
                (start_y + edge_spacing self)
          @ zone_positions (mid_spacing self) (start_y + 2 * ((height - beam_dep) / 3))
                (start_y + (height - beam_dep) / 3 + mid_spacing self)
          @ zone_positions (edge_spacing self) (start_y + height)
                (start_y + 2 * ((height - beam_dep) / 3) + edge_spacing self))\<rparr>)"
  using assms by (simp add: generate_rectangular_pattern_def Let_def while_append_zone)

lemma elevation_RectangularStirrup [simp]: "elevation (RectangularStirrup d e w h cx) = e"
  by (simp add: RectangularStirrup_def Let_def)

lemma example_stirrups:
  "calculate_stirrups example_floor 0 3000 600 =
     Some [(300, ''edge'', 8), (600, ''edge'', 8), (1200, ''mid'', 8),
           (1900, ''edge'', 8), (2200, ''edge'', 8), (2500, ''edge'', 8), (2800, ''edge'', 8)]"
  by (simp add: calculate_stirrups_zones example_floor_def zone_positions.simps)

section \<open>Stirrup positions and the usable height (C2)\<close>




section \<open>The pattern generator against the calculator (C3)\<close>

text \<open>
  C3: for positive edge and mid spacings, with the pattern's \<^verbatim>\<open>edge_spacing\<close> and
  \<^verbatim>\<open>mid_spacing\<close> set to the floor's, both calls return, and the elevations of the
  stirrups of \<^verbatim>\<open>generate_rectangular_pattern\<close> are, in order, the Y-positions of
  \<^verbatim>\<open>_calculate_stirrups\<close> for the same start, height and beam depth.
\<close>

theorem pattern_matches_calculator:
  assumes "0 < edge_stirrup_spacing fl" "0 < mid_stirrup_spacing fl"
    and "edge_spacing self = edge_stirrup_spacing fl" "mid_spacing self = mid_stirrup_spacing fl"
  shows "\<exists>ys. map_option (\<lambda>p. map elevation (stirrups p))
               (generate_rectangular_pattern self start_y height beam_dep width col_width center_x)
             = Some ys
           \<and> map_option (map fst) (calculate_stirrups fl start_y height beam_dep) = Some ys"
  using assms
  by (simp add: calculate_stirrups_zones generate_rectangular_pattern_zones comp_def)

theorem pattern_matches_calculator_witness:
  "0 < edge_stirrup_spacing example_floor \<and> 0 < mid_stirrup_spacing example_floor
     \<and> edge_spacing example_pattern = edge_stirrup_spacing example_floor
     \<and> mid_spacing example_pattern = mid_stirrup_spacing example_floor
     \<and> map_option (\<lambda>p. map elevation (stirrups p))
         (generate_rectangular_pattern example_pattern 0 3000 600 350 350 0)
       = Some [300, 600, 1200, 1900, 2200, 2500, 2800]"
proof -
  have h: "0 < edge_stirrup_spacing example_floor" "0 < mid_stirrup_spacing example_floor"
    "edge_spacing example_pattern = edge_stirrup_spacing example_floor"
    "mid_spacing example_pattern = mid_stirrup_spacing example_floor"
    by (simp_all add: example_floor_def example_pattern_def StirrupPattern_init_def)
  from pattern_matches_calculator [OF h, of 0 3000 600 350 350 0] obtain ys where
    g: "map_option (\<lambda>p. map elevation (stirrups p))
          (generate_rectangular_pattern example_pattern 0 3000 600 350 350 0) = Some ys"
    and c: "map_option (map fst) (calculate_stirrups example_floor 0 3000 600) = Some ys"
    by blast
  from c have "ys = [300, 600, 1200, 1900, 2200, 2500, 2800]"
    by (simp add: example_stirrups)
  with g h show ?thesis by simp
qed

section \<open>Generating a pattern twice (C10)\<close>

lemma generate_rectangular_pattern_again:
  assumes "generate_rectangular_pattern self start_y height beam_dep width col_width center_x
             = Some q"
  shows "generate_rectangular_pattern q start_y height beam_dep width col_width center_x = Some q"
  using assms
  by (auto simp: generate_rectangular_pattern_def Let_def split: bind_splits)

lemma generate_rectangular_pattern_clears:
  "generate_rectangular_pattern (self\<lparr>stirrups := old\<rparr>) start_y height beam_dep width col_width
       center_x
     = generate_rectangular_pattern self start_y height beam_dep width col_width center_x"
  by (simp add: generate_rectangular_pattern_def Let_def)

text \<open>
  C10: \<^verbatim>\<open>generate_rectangular_pattern\<close> starts from the cleared list, so running it
  again on its own result, with the same arguments, gives that result again; the result
  does not depend on the stirrups the pattern held before; and with positive spacings the
  call returns.
\<close>

theorem generate_rectangular_pattern_idempotent:
  "(generate_rectangular_pattern self start_y height beam_dep width col_width center_x
       \<bind> (\<lambda>q. generate_rectangular_pattern q start_y height beam_dep width col_width center_x))
     = generate_rectangular_pattern self start_y height beam_dep width col_width center_x
   \<and> generate_rectangular_pattern (self\<lparr>stirrups := old\<rparr>) start_y height beam_dep width
         col_width center_x
     = generate_rectangular_pattern self start_y height beam_dep width col_width center_x
   \<and> (0 < edge_spacing self \<and> 0 < mid_spacing self \<longrightarrow>
        generate_rectangular_pattern self start_y height beam_dep width col_width center_x
          \<noteq> None)"
proof (intro conjI)
  show "(generate_rectangular_pattern self start_y height beam_dep width col_width center_x
       \<bind> (\<lambda>q. generate_rectangular_pattern q start_y height beam_dep width col_width center_x))
     = generate_rectangular_pattern self start_y height beam_dep width col_width center_x"
    by (cases "generate_rectangular_pattern self start_y height beam_dep width col_width center_x")
       (simp_all add: generate_rectangular_pattern_again)
  show "generate_rectangular_pattern (self\<lparr>stirrups := old\<rparr>) start_y height beam_dep width
         col_width center_x
     = generate_rectangular_pattern self start_y height beam_dep width col_width center_x"
    by (rule generate_rectangular_pattern_clears)
  show "0 < edge_spacing self \<and> 0 < mid_spacing self \<longrightarrow>
        generate_rectangular_pattern self start_y height beam_dep width col_width center_x
          \<noteq> None"
    by (simp add: generate_rectangular_pattern_zones)
qed

theorem generate_rectangular_pattern_idempotent_witness:
  "0 < edge_spacing example_pattern \<and> 0 < mid_spacing example_pattern
   \<and> generate_rectangular_pattern example_pattern 0 3000 600 350 350 0 \<noteq> None
   \<and> (generate_rectangular_pattern example_pattern 0 3000 600 350 350 0
        \<bind> (\<lambda>q. generate_rectangular_pattern q 0 3000 600 350 350 0))
     = generate_rectangular_pattern example_pattern 0 3000 600 350 350 0"
proof -
  have h: "0 < edge_spacing example_pattern \<and> 0 < mid_spacing example_pattern"
    by (simp add: example_pattern_def StirrupPattern_init_def)
  with generate_rectangular_pattern_idempotent [of example_pattern 0 3000 600 350 350 0]
  show ?thesis by blast
qed

section \<open>Properties of rounding to a double\<close>

lemma round_half_even_cases:
  "round_half_even t = \<lfloor>t\<rfloor> \<or> round_half_even t = \<lfloor>t\<rfloor> + 1"
  by (simp add: round_half_even_def Let_def)

lemma round_half_even_of_int [simp]: "round_half_even (of_int k) = k"
  by (simp add: round_half_even_def Let_def)

lemma round_half_even_numeral [simp]: "round_half_even (numeral n) = numeral n"
  using round_half_even_of_int [of "numeral n"] by simp

lemma round_half_even_error: "\<bar>of_int (round_half_even t) - t\<bar> \<le> 1 / 2"
proof -
  have "of_int \<lfloor>t\<rfloor> \<le> t" "t < of_int \<lfloor>t\<rfloor> + 1" by linarith+
  then show ?thesis
    by (auto simp: round_half_even_def Let_def abs_le_iff)
qed

lemma round_half_even_mono:
  assumes "s \<le> t"
  shows "round_half_even s \<le> round_half_even t"
proof (cases "\<lfloor>s\<rfloor> = \<lfloor>t\<rfloor>")
  case True
  with assms show ?thesis
    by (auto simp: round_half_even_def Let_def)
next
  case False
  with assms have "\<lfloor>s\<rfloor> + 1 \<le> \<lfloor>t\<rfloor>"
    using floor_mono [OF assms] by linarith
  moreover have "round_half_even s \<le> \<lfloor>s\<rfloor> + 1"
    using round_half_even_cases [of s] by linarith
  moreover have "\<lfloor>t\<rfloor> \<le> round_half_even t"
    using round_half_even_cases [of t] by linarith
  ultimately show ?thesis by linarith
qed

lemma binade_iff:
  assumes "0 < x"
  shows "(\<lfloor>log 2 x\<rfloor> = k) = (2 powi k \<le> x \<and> x < 2 powi (k + 1))"
proof -
  have "(2::real) powr real_of_int k = 2 powi k"
    by (simp add: powr_real_of_int')
  moreover have "(2::real) powr (real_of_int k + 1) = 2 powi (k + 1)"
    using powr_real_of_int' [of 2 "k + 1"] by simp
  ultimately show ?thesis
    using floor_log_eq_powr_iff [of x 2 k] assms by simp
qed

lemma binade_bounds:
  assumes "0 < x"
  shows "2 powi \<lfloor>log 2 x\<rfloor> \<le> x" "x < 2 powi (\<lfloor>log 2 x\<rfloor> + 1)"
  using binade_iff [OF assms, of "\<lfloor>log 2 x\<rfloor>"] by simp_all

lemma round_double_pos:
  assumes "0 < x" "2 powi e \<le> x" "x < 2 powi (e + 1)"
  shows "round_double x = of_int (round_half_even (x / 2 powi (e - 52))) * 2 powi (e - 52)"
proof -
  have "\<lfloor>log 2 x\<rfloor> = e" using binade_iff [OF assms(1)] assms(2,3) by simp
  with assms(1) show ?thesis by (simp add: round_double_def)
qed

lemma round_double_minus: "round_double (- x) = - round_double x"
  by (simp add: round_double_def)

lemma scaled_bounds:
  fixes x :: real
  assumes "2 powi e \<le> x" "x < 2 powi (e + 1)"
  shows "2 ^ 52 \<le> x / 2 powi (e - 52)" "x / 2 powi (e - 52) < 2 ^ 53"
proof -
  have q: "(0::real) < 2 powi (e - 52)" by simp
  have a: "(2::real) powi e = 2 ^ 52 * 2 powi (e - 52)"
    by (simp add: power_int_diff)
  have b: "(2::real) powi (e + 1) = 2 ^ 53 * 2 powi (e - 52)"
    by (simp add: power_int_diff power_int_add)
  show "2 ^ 52 \<le> x / 2 powi (e - 52)"
    using assms(1) q unfolding a by (simp add: pos_le_divide_eq)
  show "x / 2 powi (e - 52) < 2 ^ 53"
    using assms(2) q unfolding b by (simp add: pos_divide_less_eq)
qed

lemma round_double_pos_bounds:
  assumes "0 < x" "2 powi e \<le> x" "x < 2 powi (e + 1)"
  shows "2 powi e \<le> round_double x" "round_double x \<le> 2 powi (e + 1)"
proof -
  let ?q = "(2::real) powi (e - 52)"
  let ?k = "round_half_even (x / ?q)"
  have q: "0 < ?q" by simp
  note sb = scaled_bounds [OF assms(2,3)]
  have "round_half_even (of_int (2 ^ 52)) \<le> ?k"
    by (rule round_half_even_mono) (use sb(1) in simp)
  then have lo: "2 ^ 52 \<le> ?k" by simp
  have "?k \<le> round_half_even (of_int (2 ^ 53))"
    by (rule round_half_even_mono) (use sb(2) in simp)
  then have hi: "?k \<le> 2 ^ 53" by simp
  have a: "(2::real) powi e = 2 ^ 52 * ?q"
    by (simp add: power_int_diff)
  have b: "(2::real) powi (e + 1) = 2 ^ 53 * ?q"
    by (simp add: power_int_diff power_int_add)
  have "(2 ^ 52 :: real) \<le> of_int ?k" using lo by (metis of_int_le_iff of_int_numeral of_int_power)
  then show "2 powi e \<le> round_double x"
    unfolding round_double_pos [OF assms] a using q by simp
  have "of_int ?k \<le> (2 ^ 53 :: real)" using hi by (metis of_int_le_iff of_int_numeral of_int_power)
  then show "round_double x \<le> 2 powi (e + 1)"
    unfolding round_double_pos [OF assms] b using q by simp
qed


lemma round_double_zero [simp]: "round_double 0 = 0"
  by (simp add: round_double_def)

lemma round_double_pos_gt:
  assumes "0 < x"
  shows "0 < round_double x"
proof -
  have "(0::real) < 2 powi \<lfloor>log 2 x\<rfloor>" by simp
  also have "\<dots> \<le> round_double x"
    by (rule round_double_pos_bounds(1) [OF assms binade_bounds [OF assms]])
  finally show ?thesis .
qed


lemma round_double_error_pos:
  assumes "0 < x"
  shows "\<bar>round_double x - x\<bar> \<le> x / 2 ^ 53"
proof -
  define e where "e = \<lfloor>log 2 x\<rfloor>"
  let ?q = "(2::real) powi (e - 52)"
  note b = binade_bounds [OF assms, folded e_def]
  have q: "0 < ?q" by simp
  have "round_double x - x = (of_int (round_half_even (x / ?q)) - x / ?q) * ?q"
    unfolding round_double_pos [OF assms b] using q by (simp add: field_simps)
  then have "\<bar>round_double x - x\<bar> = \<bar>of_int (round_half_even (x / ?q)) - x / ?q\<bar> * ?q"
    using q by (simp add: abs_mult)
  also have "\<dots> \<le> 1 / 2 * ?q"
    using round_half_even_error [of "x / ?q"] q by (intro mult_right_mono) simp_all
  also have "?q \<le> x / 2 ^ 52"
    using scaled_bounds(1) [OF b] q by (simp add: field_simps)
  finally show ?thesis by (simp add: field_simps)
qed

lemma round_double_error: "\<bar>round_double x - x\<bar> \<le> \<bar>x\<bar> / 2 ^ 53"
proof -
  consider "0 < x" | "x = 0" | "x < 0" by linarith
  then show ?thesis
  proof cases
    case 1
    then show ?thesis using round_double_error_pos [of x] by simp
  next
    case 2
    then show ?thesis by simp
  next
    case 3
    then have "0 < - x" by simp
    from round_double_error_pos [OF this] 3 show ?thesis
      by (simp add: round_double_minus abs_minus_commute)
  qed
qed


lemma round_double_multiple:
  assumes "0 < x" "2 powi e \<le> x" "x < 2 powi (e + 1)" "x / 2 powi (e - 52) = of_int k"
  shows "round_double x = x"
proof -
  have "round_double x = of_int k * 2 powi (e - 52)"
    unfolding round_double_pos [OF assms(1-3)] assms(4) by simp
  also have "\<dots> = x" using assms(4) by (simp add: field_simps)
  finally show ?thesis .
qed

lemma round_double_idem_pos:
  assumes "0 < x"
  shows "round_double (round_double x) = round_double x"
proof -
  define e where "e = \<lfloor>log 2 x\<rfloor>"
  define k where "k = round_half_even (x / 2 powi (e - 52))"
  note b = binade_bounds [OF assms, folded e_def]
  have y: "round_double x = of_int k * 2 powi (e - 52)"
    unfolding k_def by (rule round_double_pos [OF assms b])
  have pos: "0 < round_double x" by (rule round_double_pos_gt [OF assms])
  note rb = round_double_pos_bounds [OF assms b]
  show ?thesis
  proof (cases "round_double x < 2 powi (e + 1)")
    case True
    show ?thesis
      by (rule round_double_multiple [OF pos rb(1) True, of k]) (simp add: y)
  next
    case False
    with rb(2) have eq: "round_double x = 2 powi (e + 1)" by simp
    have "(2::real) powi (e + 1) < 2 powi (e + 1 + 1)"
      by (intro power_int_strict_increasing) simp_all
    moreover have "(2::real) powi (e + 1) / 2 powi (e + 1 - 52) = of_int (2 ^ 52)"
      by (simp add: power_int_diff power_int_add)
    ultimately show ?thesis
      unfolding eq
      by (intro round_double_multiple [of _ "e + 1" "2 ^ 52"]) simp_all
  qed
qed

lemma round_double_idem [simp]: "round_double (round_double x) = round_double x"
proof -
  consider "0 < x" | "x = 0" | "x < 0" by linarith
  then show ?thesis
  proof cases
    case 1
    then show ?thesis by (rule round_double_idem_pos)
  next
    case 2
    then show ?thesis by simp
  next
    case 3
    then have "0 < - x" by simp
    from round_double_idem_pos [OF this] show ?thesis
      by (simp add: round_double_minus)
  qed
qed

lemma round_double_of_int_pos:
  assumes "0 < n" "n < 2 ^ 53"
  shows "round_double (of_int n) = of_int n"
proof -
  define e where "e = \<lfloor>log 2 (of_int n)\<rfloor>"
  have pos: "(0::real) < of_int n" using assms(1) by simp
  note b = binade_bounds [OF pos, folded e_def]
  have "e \<le> 52"
  proof (rule ccontr)
    assume "\<not> e \<le> 52"
    then have "53 \<le> e" by simp
    then have "(2::real) powi 53 \<le> 2 powi e"
      by (intro power_int_increasing) simp_all
    with b(1) have "(2::real) ^ 53 \<le> of_int n" by simp
    then have "(2::int) ^ 53 \<le> n" by (metis of_int_le_iff of_int_numeral of_int_power)
    with assms(2) show False by simp
  qed
  then have "(2::real) powi (52 - e) = 2 ^ nat (52 - e)"
    by (simp add: power_int_def)
  then have "real_of_int n / 2 powi (e - 52) = of_int (n * 2 ^ nat (52 - e))"
    using power_int_minus [of "2::real" "52 - e"] by (simp add: field_simps)
  then show ?thesis
    by (rule round_double_multiple [OF pos b])
qed

lemma round_double_of_int:
  assumes "\<bar>n\<bar> < 2 ^ 53"
  shows "round_double (of_int n) = of_int n"
proof -
  consider "0 < n" | "n = 0" | "n < 0" by linarith
  then show ?thesis
  proof cases
    case 1
    with assms show ?thesis by (intro round_double_of_int_pos) simp_all
  next
    case 2
    then show ?thesis by simp
  next
    case 3
    with assms have "0 < - n" "- n < 2 ^ 53" by simp_all
    from round_double_of_int_pos [OF this] show ?thesis
      using round_double_minus [of "of_int n"] by simp
  qed
qed

lemma round_double_half_pos:
  assumes "0 < x"
  shows "round_double (x / 2) = round_double x / 2"
proof -
  define e where "e = \<lfloor>log 2 x\<rfloor>"
  note b = binade_bounds [OF assms, folded e_def]
  have p: "(2::real) powi e = 2 * 2 powi (e - 1)" "(2::real) powi (e + 1) = 2 * 2 powi e"
    by (simp_all add: power_int_diff power_int_add)
  have q: "(2::real) powi (e - 52) = 2 * 2 powi (e - 1 - 52)"
    by (simp add: power_int_diff)
  have lo: "2 powi (e - 1) \<le> x / 2" using b(1) unfolding p(1) by simp
  have hi: "x / 2 < 2 powi (e - 1 + 1)" using b(2) unfolding p(2) by simp
  have "round_double (x / 2)
          = of_int (round_half_even (x / 2 / 2 powi (e - 1 - 52))) * 2 powi (e - 1 - 52)"
    by (rule round_double_pos [OF _ lo hi]) (use assms in simp)
  also have "x / 2 / 2 powi (e - 1 - 52) = x / 2 powi (e - 52)"
    unfolding q by simp
  also have "real_of_int (round_half_even (x / 2 powi (e - 52))) * 2 powi (e - 1 - 52)
               = real_of_int (round_half_even (x / 2 powi (e - 52))) * 2 powi (e - 52) / 2"
    by (simp add: power_int_diff)
  also have "real_of_int (round_half_even (x / 2 powi (e - 52))) * 2 powi (e - 52)
               = round_double x"
    by (rule round_double_pos [OF assms b, symmetric])
  finally show ?thesis .
qed

lemma round_double_half: "round_double (x / 2) = round_double x / 2"
proof -
  consider "0 < x" | "x = 0" | "x < 0" by linarith
  then show ?thesis
  proof cases
    case 1
    then show ?thesis by (rule round_double_half_pos)
  next
    case 2
    then show ?thesis by simp
  next
    case 3
    then have "0 < - x" by simp
    from round_double_half_pos [OF this] show ?thesis
      using round_double_minus [of "x / 2"] by (simp add: round_double_minus)
  qed
qed

lemma round_double_abs_le: "\<bar>round_double x\<bar> \<le> 2 * \<bar>x\<bar>"
proof -
  have "\<bar>round_double x - x\<bar> \<le> \<bar>x\<bar> / 2 ^ 53" by (rule round_double_error)
  also have "\<dots> \<le> \<bar>x\<bar> / 1" by (intro divide_left_mono) simp_all
  finally have "\<bar>round_double x - x\<bar> \<le> \<bar>x\<bar>" by simp
  then show ?thesis by linarith
qed


text \<open>
  An equation that evaluates \<open>round_double\<close>: the exponent is read off the bit length
  of an integer, of \<open>\<lfloor>\<bar>x\<bar>\<rfloor>\<close> from 1 on and of \<open>\<lceil>1 / \<bar>x\<bar>\<rceil> - 1\<close> below 1.
\<close>

lemma binade_ge_one:
  assumes "1 \<le> x"
  shows "\<lfloor>log 2 x\<rfloor> = bitlen \<lfloor>x\<rfloor> - 1"
proof -
  define n where "n = \<lfloor>x\<rfloor>"
  have n: "0 < n" "of_int n \<le> x" "x < of_int n + 1"
    using assms by (simp_all add: n_def)
  from bitlen_bounds [OF n(1)] have b: "2 ^ nat (bitlen n - 1) \<le> n" "n < 2 ^ nat (bitlen n)"
    by simp_all
  have b1: "1 \<le> bitlen n" using n(1) by (simp add: bitlen_alt_def)
  have p1: "(2::real) powi (bitlen n - 1) = 2 ^ nat (bitlen n - 1)"
    using b1 by (simp add: power_int_def)
  have p2: "(2::real) powi (bitlen n - 1 + 1) = 2 ^ nat (bitlen n)"
    using b1 by (simp add: power_int_def)
  have "(2::real) ^ nat (bitlen n - 1) \<le> of_int n"
    using b(1) by (metis of_int_le_iff of_int_numeral of_int_power)
  with n(2) have lo: "2 powi (bitlen n - 1) \<le> x" unfolding p1 by linarith
  have "n + 1 \<le> 2 ^ nat (bitlen n)" using b(2) by simp
  then have "real_of_int (n + 1) \<le> 2 ^ nat (bitlen n)"
    by (metis of_int_le_iff of_int_numeral of_int_power)
  with n(3) have hi: "x < 2 powi (bitlen n - 1 + 1)" unfolding p2 by simp
  have "0 < x" using assms by simp
  from binade_iff [OF this, of "bitlen n - 1"] lo hi show ?thesis
    by (simp add: n_def)
qed

lemma binade_less_one:
  assumes "0 < x" "x < 1"
  shows "\<lfloor>log 2 x\<rfloor> = - bitlen (\<lceil>1 / x\<rceil> - 1)"
proof -
  define k where "k = \<lceil>1 / x\<rceil> - 1"
  define c where "c = bitlen k"
  have y: "1 < 1 / x" using assms by simp
  have ky: "real_of_int k < 1 / x" "1 / x \<le> real_of_int k + 1"
    unfolding k_def by (simp_all add: le_of_int_ceiling) linarith
  from y ky(2) have k: "0 < k" by linarith
  from bitlen_bounds [OF k] have b: "2 ^ nat (c - 1) \<le> k" "k < 2 ^ nat c"
    by (simp_all add: c_def)
  have c1: "1 \<le> c" using k by (simp add: c_def bitlen_alt_def)
  have "(2::real) ^ nat (c - 1) \<le> of_int k"
    using b(1) by (metis of_int_le_iff of_int_numeral of_int_power)
  with ky(1) have lt: "2 ^ nat (c - 1) < 1 / x" by linarith
  have "k + 1 \<le> 2 ^ nat c" using b(2) by simp
  then have "real_of_int (k + 1) \<le> 2 ^ nat c"
    by (metis of_int_le_iff of_int_numeral of_int_power)
  with ky(2) have le: "1 / x \<le> 2 ^ nat c" by simp
  have q1: "(2::real) powi c = 2 ^ nat c" "(2::real) powi (c - 1) = 2 ^ nat (c - 1)"
    using c1 by (simp_all add: power_int_def)
  have p1: "(2::real) powi (- c) = 1 / 2 ^ nat c"
    by (simp only: power_int_minus_divide q1)
  have "(2::real) powi (- c + 1) = 2 powi (- (c - 1))" by simp
  also have "\<dots> = 1 / 2 ^ nat (c - 1)"
    by (simp only: power_int_minus_divide q1)
  finally have p2: "(2::real) powi (- c + 1) = 1 / 2 ^ nat (c - 1)" .
  have lo: "2 powi (- c) \<le> x"
    unfolding p1 using le assms(1) by (simp add: field_simps)
  have hi: "x < 2 powi (- c + 1)"
    unfolding p2 using lt assms(1) by (simp add: field_simps)
  from binade_iff [OF assms(1), of "- c"] lo hi show ?thesis
    by (simp add: c_def k_def)
qed

lemma round_double_code [code]:
  "round_double x =
     (if x = 0 then 0
      else let e = (if 1 \<le> \<bar>x\<bar> then bitlen \<lfloor>\<bar>x\<bar>\<rfloor> - 1
                    else - bitlen (\<lceil>1 / \<bar>x\<bar>\<rceil> - 1))
           in sgn x * (of_int (round_half_even (\<bar>x\<bar> / 2 powi (e - 52))) * 2 powi (e - 52)))"
proof (cases "x = 0")
  case True
  then show ?thesis by simp
next
  case False
  then have pos: "0 < \<bar>x\<bar>" by simp
  have "\<lfloor>log 2 \<bar>x\<bar>\<rfloor> = (if 1 \<le> \<bar>x\<bar> then bitlen \<lfloor>\<bar>x\<bar>\<rfloor> - 1
                    else - bitlen (\<lceil>1 / \<bar>x\<bar>\<rceil> - 1))"
    using binade_ge_one [of "\<bar>x\<bar>"] binade_less_one [OF pos] by auto
  with False show ?thesis by (simp add: round_double_def Let_def)
qed

section \<open>Floor levels (C8)\<close>

lemma round_double_numeral:
  "(numeral n :: int) < 2 ^ 53 \<Longrightarrow> round_double (numeral n) = numeral n"
  using round_double_of_int [of "numeral n"] by simp










section \<open>Column boundaries (C9)\<close>

lemma boundary_midpoint_error:
  fixes b h :: real
  shows "\<bar>(round_double (b - h) + round_double (b + h)) / 2 - b\<bar> \<le> (\<bar>b\<bar> + \<bar>h\<bar>) / 2 ^ 53"
proof -
  define u where "u = round_double (b - h) - (b - h)"
  define v where "v = round_double (b + h) - (b + h)"
  define c where "c = (\<bar>b\<bar> + \<bar>h\<bar>) / 2 ^ 53"
  have "\<bar>u\<bar> \<le> \<bar>b - h\<bar> / 2 ^ 53"
    unfolding u_def by (rule round_double_error)
  also have "\<dots> \<le> c"
    unfolding c_def by (intro divide_right_mono) simp_all
  finally have u: "\<bar>u\<bar> \<le> c" .
  have "\<bar>v\<bar> \<le> \<bar>b + h\<bar> / 2 ^ 53"
    unfolding v_def by (rule round_double_error)
  also have "\<dots> \<le> c"
    unfolding c_def by (intro divide_right_mono) simp_all
  finally have v: "\<bar>v\<bar> \<le> c" .
  have "(round_double (b - h) + round_double (b + h)) / 2 - b = (u + v) / 2"
    by (simp add: u_def v_def)
  moreover have "\<bar>(u + v) / 2\<bar> \<le> c"
  proof -
    have "\<bar>(u + v) / 2\<bar> = \<bar>u + v\<bar> / 2" by simp
    also have "\<dots> \<le> (\<bar>u\<bar> + \<bar>v\<bar>) / 2"
      by (intro divide_right_mono abs_triangle_ineq) simp
    also have "\<dots> \<le> (c + c) / 2"
      by (intro divide_right_mono add_mono u v) simp
    finally show ?thesis by simp
  qed
  ultimately show ?thesis by (simp only: c_def)
qed

lemma boundary_double_midpoint_error:
  fixes b h :: real
  shows "\<bar>double_div (double_add (round_double (b - h)) (round_double (b + h))) 2 - b\<bar>
           \<le> 3 * (\<bar>b\<bar> + \<bar>h\<bar>) / 2 ^ 53"
proof -
  define l where "l = round_double (b - h)"
  define r where "r = round_double (b + h)"
  define a where "a = \<bar>b\<bar> + \<bar>h\<bar>"
  have a0: "0 \<le> a" by (simp add: a_def)
  have m: "double_div (double_add l r) 2 = round_double (l + r) / 2"
    by (simp add: double_div_def double_add_def round_double_half)
  have "\<bar>l\<bar> \<le> 2 * \<bar>b - h\<bar>" unfolding l_def by (rule round_double_abs_le)
  also have "\<dots> \<le> 2 * a"
    unfolding a_def by (intro mult_left_mono abs_triangle_ineq4) simp
  finally have labs: "\<bar>l\<bar> \<le> 2 * a" .
  have "\<bar>r\<bar> \<le> 2 * \<bar>b + h\<bar>" unfolding r_def by (rule round_double_abs_le)
  also have "\<dots> \<le> 2 * a"
    unfolding a_def by (intro mult_left_mono abs_triangle_ineq) simp
  finally have rabs: "\<bar>r\<bar> \<le> 2 * a" .
  have "\<bar>l + r\<bar> \<le> \<bar>l\<bar> + \<bar>r\<bar>" by (rule abs_triangle_ineq)
  also have "\<dots> \<le> 2 * a + 2 * a" by (intro add_mono labs rabs)
  finally have s: "\<bar>l + r\<bar> \<le> 4 * a" by simp
  define e where "e = round_double (l + r) - (l + r)"
  define f where "f = (l + r) / 2 - b"
  have "\<bar>e\<bar> \<le> \<bar>l + r\<bar> / 2 ^ 53"
    unfolding e_def by (rule round_double_error)
  also have "\<dots> \<le> 4 * a / 2 ^ 53"
    by (intro divide_right_mono s) simp
  finally have e1: "\<bar>e\<bar> \<le> 4 * a / 2 ^ 53" .
  have e2: "\<bar>f\<bar> \<le> a / 2 ^ 53"
    unfolding f_def l_def r_def a_def by (rule boundary_midpoint_error)
  have eq: "round_double (l + r) / 2 - b = e / 2 + f"
    by (simp add: e_def f_def diff_divide_distrib)
  have "\<bar>e / 2 + f\<bar> \<le> \<bar>e / 2\<bar> + \<bar>f\<bar>" by (rule abs_triangle_ineq)
  also have "\<bar>e / 2\<bar> = \<bar>e\<bar> / 2" by simp
  also have "\<bar>e\<bar> / 2 + \<bar>f\<bar> \<le> (4 * a / 2 ^ 53) / 2 + a / 2 ^ 53"
    by (intro add_mono divide_right_mono e1 e2) simp
  also have "\<dots> = 3 * a / 2 ^ 53" by simp
  finally have "\<bar>round_double (l + r) / 2 - b\<bar> \<le> 3 * a / 2 ^ 53"
    unfolding eq .
  then have "\<bar>double_div (double_add l r) 2 - b\<bar> \<le> 3 * a / 2 ^ 53"
    unfolding m .
  then show ?thesis
    unfolding l_def r_def a_def .
qed

text \<open>
  C9, as stated: the midpoint of every boundary pair is exactly the base point's x. The
  boundaries are a double difference and a double sum, each rounded on its own: for the
  base x 0.1 and a column length of 400 the pair is (-199.9, 200.1) as doubles, and its
  midpoint, 0.09999999999999432, is not the base x.
\<close>

theorem column_boundaries_symmetric_counterexample:
  "round_double double_tenth = double_tenth
   \<and> column_boundaries (calculate_column_geometry [example_floor] example_settings
        (double_tenth, 0, 0))
       = [(- (7033355980557517 / 2 ^ 45), 7040392854975283 / 2 ^ 45)]
   \<and> (- (7033355980557517 / 2 ^ 45) + 7040392854975283 / 2 ^ 45) / 2 \<noteq> double_tenth
   \<and> double_div (double_add (- (7033355980557517 / 2 ^ 45)) (7040392854975283 / 2 ^ 45)) 2
       = 7036874417766 / 2 ^ 46
   \<and> 7036874417766 / 2 ^ 46 \<noteq> double_tenth"
proof -
  have t: "round_double double_tenth
             = of_int (round_half_even (double_tenth / 2 powi (- 4 - 52))) * 2 powi (- 4 - 52)"
    by (rule round_double_pos) (simp_all add: double_tenth_def)
  have tenth: "round_double double_tenth = double_tenth"
    unfolding t by (simp add: double_tenth_def round_half_even_def Let_def)
  have "round_double (200 - double_tenth)
          = of_int (round_half_even ((200 - double_tenth) / 2 powi (7 - 52))) * 2 powi (7 - 52)"
    by (rule round_double_pos) (simp_all add: double_tenth_def)
  also have "\<dots> = 7033355980557517 / 2 ^ 45"
    by (simp add: double_tenth_def round_half_even_def Let_def)
  finally have "round_double (- (200 - double_tenth)) = - (7033355980557517 / 2 ^ 45)"
    by (simp only: round_double_minus)
  then have left: "round_double (double_tenth - 200) = - (7033355980557517 / 2 ^ 45)"
    by simp
  have "round_double (double_tenth + 200)
          = of_int (round_half_even ((double_tenth + 200) / 2 powi (7 - 52))) * 2 powi (7 - 52)"
    by (rule round_double_pos) (simp_all add: double_tenth_def)
  also have "\<dots> = 7040392854975283 / 2 ^ 45"
    by (simp add: double_tenth_def round_half_even_def Let_def)
  finally have right: "round_double (double_tenth + 200) = 7040392854975283 / 2 ^ 45" .
  have half: "round_double (400 / 2) = 200"
    by (simp add: round_double_numeral)
  have "column_boundaries (calculate_column_geometry [example_floor] example_settings
          (double_tenth, 0, 0))
       = [(- (7033355980557517 / 2 ^ 45), 7040392854975283 / 2 ^ 45)]"
    by (simp only: calculate_column_geometry_def example_floor_def double_sub_def double_add_def
          double_div_def Let_def prod.case list.map FloorData.simps ColumnGeometry.simps
          half left right)
  moreover have "(- (7033355980557517 / 2 ^ 45) + 7040392854975283 / 2 ^ 45) / 2
                   \<noteq> double_tenth"
    by (simp add: double_tenth_def)
  moreover have "double_div (double_add (- (7033355980557517 / 2 ^ 45))
                   (7040392854975283 / 2 ^ 45)) 2 = 7036874417766 / 2 ^ 46"
  proof -
    have "round_double (7036874417766 / 2 ^ 45)
            = of_int (round_half_even (7036874417766 / 2 ^ 45 / 2 powi (- 3 - 52)))
                * 2 powi (- 3 - 52)"
      by (rule round_double_pos) simp_all
    also have "\<dots> = 7036874417766 / 2 ^ 45"
      by (simp add: round_half_even_def Let_def)
    finally have rs: "round_double (7036874417766 / 2 ^ 45) = 7036874417766 / 2 ^ 45" .
    have sum: "- (7033355980557517 / 2 ^ 45) + 7040392854975283 / 2 ^ 45
                 = (7036874417766 / 2 ^ 45 :: real)"
      by simp
    have "double_div (double_add (- (7033355980557517 / 2 ^ 45)) (7040392854975283 / 2 ^ 45)) 2
            = round_double (round_double
                (- (7033355980557517 / 2 ^ 45) + 7040392854975283 / 2 ^ 45) / 2)"
      by (simp only: double_div_def double_add_def)
    also have "\<dots> = round_double (round_double (7036874417766 / 2 ^ 45) / 2)"
      by (simp only: sum)
    also have "\<dots> = round_double (7036874417766 / 2 ^ 45 / 2)"
      by (simp only: rs)
    also have "\<dots> = round_double (7036874417766 / 2 ^ 45) / 2"
      by (rule round_double_half)
    also have "\<dots> = 7036874417766 / 2 ^ 45 / 2"
      by (simp only: rs)
    also have "\<dots> = 7036874417766 / 2 ^ 46"
      by simp
    finally show ?thesis .
  qed
  moreover have "(7036874417766 / 2 ^ 46 :: real) \<noteq> double_tenth"
    by (simp add: double_tenth_def)
  ultimately show ?thesis using tenth by simp
qed

text \<open>
  C9, amended: the boundary pair of every floor is the double difference and the double
  sum of the base point's x and half of that floor's own \<^verbatim>\<open>column_length\<close>, and the
  midpoint of the pair is the base point's x up to rounding: the exact midpoint differs
  from it by at most \<open>(\<bar>base_x\<bar> + \<bar>half\<bar>) / 2 ^ 53\<close>, and the midpoint computed in
  doubles, \<^verbatim>\<open>(left + right) / 2\<close>, by at most three times as much.
\<close>

theorem column_boundaries_centred:
  "column_boundaries (calculate_column_geometry floors settings (base_x, base_y, base_z))
     = map (\<lambda>fl. (double_sub base_x (double_div (column_length fl) 2),
                  double_add base_x (double_div (column_length fl) 2))) floors
   \<and> (\<forall>i < length floors.
        case column_boundaries (calculate_column_geometry floors settings (base_x, base_y, base_z)) ! i
        of (left_x, right_x) \<Rightarrow>
          \<bar>(left_x + right_x) / 2 - base_x\<bar>
            \<le> (\<bar>base_x\<bar> + \<bar>double_div (column_length (floors ! i)) 2\<bar>) / 2 ^ 53
          \<and> \<bar>double_div (double_add left_x right_x) 2 - base_x\<bar>
            \<le> 3 * (\<bar>base_x\<bar> + \<bar>double_div (column_length (floors ! i)) 2\<bar>) / 2 ^ 53)"
proof (intro conjI allI impI)
  show b: "column_boundaries (calculate_column_geometry floors settings (base_x, base_y, base_z))
     = map (\<lambda>fl. (double_sub base_x (double_div (column_length fl) 2),
                  double_add base_x (double_div (column_length fl) 2))) floors"
    by (simp add: calculate_column_geometry_def Let_def)
  fix i
  assume i: "i < length floors"
  have "column_boundaries (calculate_column_geometry floors settings (base_x, base_y, base_z)) ! i
          = (round_double (base_x - double_div (column_length (floors ! i)) 2),
             round_double (base_x + double_div (column_length (floors ! i)) 2))"
    unfolding b using i by (simp add: double_sub_def double_add_def)
  then show "case column_boundaries
                 (calculate_column_geometry floors settings (base_x, base_y, base_z)) ! i
        of (left_x, right_x) \<Rightarrow>
          \<bar>(left_x + right_x) / 2 - base_x\<bar>
            \<le> (\<bar>base_x\<bar> + \<bar>double_div (column_length (floors ! i)) 2\<bar>) / 2 ^ 53
          \<and> \<bar>double_div (double_add left_x right_x) 2 - base_x\<bar>
            \<le> 3 * (\<bar>base_x\<bar> + \<bar>double_div (column_length (floors ! i)) 2\<bar>) / 2 ^ 53"
    by (simp only: prod.case boundary_midpoint_error boundary_double_midpoint_error simp_thms)
qed

theorem column_boundaries_centred_witness:
  "column_boundaries (calculate_column_geometry [example_floor, example_upper_floor]
      example_settings (0, 0, 0)) = [(- 200, 200), (- 150, 150)]
   \<and> \<bar>((- 150 :: real) + 150) / 2 - 0\<bar>
       \<le> (\<bar>0\<bar> + \<bar>double_div (column_length example_upper_floor) 2\<bar>) / 2 ^ 53"
proof -
  let ?floors = "[example_floor, example_upper_floor]"
  have b: "column_boundaries (calculate_column_geometry ?floors example_settings (0, 0, 0))
             = [(- 200, 200), (- 150, 150)]"
    by (simp add: calculate_column_geometry_def example_floor_def example_upper_floor_def
          double_sub_def double_add_def double_div_def round_double_numeral round_double_minus)
  from column_boundaries_centred [of ?floors example_settings 0 0 0, THEN conjunct2,
         rule_format, of 1]
  have "case column_boundaries (calculate_column_geometry ?floors example_settings (0, 0, 0)) ! 1
        of (left_x, right_x) \<Rightarrow>
          \<bar>(left_x + right_x) / 2 - 0\<bar>
            \<le> (\<bar>0\<bar> + \<bar>double_div (column_length (?floors ! 1)) 2\<bar>) / 2 ^ 53
          \<and> \<bar>double_div (double_add left_x right_x) 2 - 0\<bar>
            \<le> 3 * (\<bar>0\<bar> + \<bar>double_div (column_length (?floors ! 1)) 2\<bar>) / 2 ^ 53"
    by simp
  then have "\<bar>((- 150 :: real) + 150) / 2 - 0\<bar>
       \<le> (\<bar>0\<bar> + \<bar>double_div (column_length example_upper_floor) 2\<bar>) / 2 ^ 53"
    unfolding b by simp
  with b show ?thesis by simp
qed

section \<open>Lap lengths (C4)\<close>






section \<open>The weight of a single bar (C1)\<close>

lemma single_bar_length:
  "rebar_length \<lparr> bar_diameter = 20, start_point = Point3D 0 0 0, end_point = Point3D 0 3000 0,
                  grade = ''500'' \<rparr> = 3000"
proof -
  have "sqrt ((3000::real)\<^sup>2) = 3000" by (rule real_sqrt_unique) simp_all
  then show ?thesis by (simp add: rebar_length_def)
qed

text \<open>
  C1 states that \<^verbatim>\<open>get_total_weight\<close>, with density 7850, returns about 7.40 (within
  0.01) for a layout of one vertical bar of diameter 20 and length 3000. In the module as
  it is written, \<^verbatim>\<open>math\<close> is not imported and the call raises NameError. With
  \<^verbatim>\<open>math\<close> bound, the division by 1000 where cubic millimetres become cubic metres
  gives \<open>2355000 * pi\<close>, about 7.4 million, not 7.40.
\<close>

theorem get_total_weight_single_bar:
  "get_total_weight rebar_module_names single_bar_layout 7850 = Inl NameError
   \<and> get_total_weight (''math'' # rebar_module_names) single_bar_layout 7850
       = Inr (2355000 * pi)
   \<and> \<not> \<bar>2355000 * pi - 7.40\<bar> \<le> 0.01"
proof (intro conjI)
  show "get_total_weight rebar_module_names single_bar_layout 7850 = Inl NameError"
    by (simp add: get_total_weight_def single_bar_layout_def math_pi_def rebar_module_names_def)
  show "get_total_weight (''math'' # rebar_module_names) single_bar_layout 7850
       = Inr (2355000 * pi)"
    by (simp add: get_total_weight_def single_bar_layout_def math_pi_def single_bar_length Let_def)
  have "(2::real) \<le> pi" by (rule pi_ge_two)
  then show "\<not> \<bar>2355000 * pi - 7.40\<bar> \<le> 0.01" by (simp add: abs_le_iff)
qed

section \<open>The dense grid and the perimeter variant (C6)\<close>

lemma grid_without_corners_set:
  fixes m n :: int
  shows "set (filter (\<lambda>(i, j). \<not> ((i = 0 \<or> i = m - 1) \<and> (j = 0 \<or> j = n - 1)))
                   (List.product [0..m - 1] [0..n - 1]))
         = set (List.product [0..m - 1] [0..n - 1])
             - {(0, 0), (0, n - 1), (m - 1, 0), (m - 1, n - 1)}"
proof (rule set_eqI)
  fix p :: "int \<times> int"
  obtain i j where p: "p = (i, j)" by (cases p)
  show "p \<in> set (filter (\<lambda>(i, j). \<not> ((i = 0 \<or> i = m - 1) \<and> (j = 0 \<or> j = n - 1)))
                   (List.product [0..m - 1] [0..n - 1]))
        \<longleftrightarrow> p \<in> set (List.product [0..m - 1] [0..n - 1])
             - {(0, 0), (0, n - 1), (m - 1, 0), (m - 1, n - 1)}"
    unfolding p by simp blast
qed

lemma corners_card:
  fixes m n :: int
  assumes "2 \<le> m" "2 \<le> n"
  shows "card {(0, 0), (0, n - 1), (m - 1, 0), (m - 1, n - 1)} = 4"
  using assms by simp

lemma corners_in_grid:
  fixes m n :: int
  assumes "2 \<le> m" "2 \<le> n"
  shows "{(0, 0), (0, n - 1), (m - 1, 0), (m - 1, n - 1)}
           \<subseteq> set (List.product [0..m - 1] [0..n - 1])"
  using assms by simp

lemma grid_without_corners_length:
  assumes "2 \<le> m" "2 \<le> n"
  shows "length (filter (\<lambda>(i, j). \<not> ((i = 0 \<or> i = m - 1) \<and> (j = 0 \<or> j = n - 1)))
                   (List.product [0..m - 1] [0..n - 1])) = nat (m * n - 4)"
proof -
  define grid where "grid = List.product [0..m - 1] [0..n - 1]"
  define corners where "corners = {(0 :: int, 0 :: int), (0, n - 1), (m - 1, 0), (m - 1, n - 1)}"
  define kept where "kept = filter (\<lambda>(i, j). \<not> ((i = 0 \<or> i = m - 1) \<and> (j = 0 \<or> j = n - 1))) grid"
  have d: "distinct grid" by (simp add: grid_def distinct_product)
  then have dk: "distinct kept" by (simp add: kept_def)
  have fin: "finite corners" by (simp add: corners_def)
  have sub: "corners \<subseteq> set grid"
    unfolding corners_def grid_def by (rule corners_in_grid [OF assms])
  have c4: "card corners = 4"
    unfolding corners_def by (rule corners_card [OF assms])
  have s: "set kept = set grid - corners"
    unfolding kept_def grid_def corners_def by (rule grid_without_corners_set)
  have lg: "length grid = nat (m * n)"
    using assms by (simp add: grid_def nat_mult_distrib)
  have "length kept = card (set kept)"
    using dk by (simp add: distinct_card)
  also have "\<dots> = card (set grid) - card corners"
    unfolding s using fin sub by (rule card_Diff_subset)
  also have "card (set grid) = length grid" using d by (rule distinct_card)
  finally have "length kept = nat (m * n) - 4" using c4 lg by simp
  moreover have "nat (m * n) - 4 = nat (m * n - 4)" by (simp add: nat_diff_distrib)
  ultimately show ?thesis by (simp add: kept_def grid_def)
qed

lemma zip_map_filter_keys:
  "map snd (filter (\<lambda>kv. P (fst kv)) (zip xs (map f xs))) = map f (filter P xs)"
  by (induction xs) auto

text \<open>
  C6: a rectangular floor with \<open>m \<ge> 2\<close> by \<open>n \<ge> 2\<close> bars. The calculator returns the
  whole grid of \<open>m * n\<close> points \<open>(25 + i * x_spacing, 25 + j * y_spacing)\<close>. The entity
  model, for a section of the same length and width with the same counts and cover 25,
  appends \<open>m * n - 4\<close> points: the calculator's points, in order, without those at the
  four corner indices.
\<close>

theorem section_grid_and_perimeter:
  assumes "0 < column_width fl" "rebar_amount_x fl = m" "rebar_amount_y fl = n"
    and "2 \<le> m" "2 \<le> n"
    and "reinforcement (section_floor sec) = Some layout"
    and "main_bars_x layout = m" "main_bars_y layout = n"
    and "cf_length (section_floor sec) = column_length fl"
    and "cf_width (section_floor sec) = column_width fl"
  shows "\<exists>ps sec' new.
           calculate_section_rebar_positions fl = Inr ps
         \<and> ps = map (\<lambda>(i, j).
                  (25 + real_of_int i * ((column_length fl - 2 * 25) / real_of_int (m - 1)),
                   25 + real_of_int j * ((column_width fl - 2 * 25) / real_of_int (n - 1))))
                (List.product [0..m - 1] [0..n - 1])
         \<and> length ps = nat (m * n)
         \<and> calculate_rectangular_positions sec 25 = Inr sec'
         \<and> rebar_positions sec' = rebar_positions sec @ new
         \<and> length new = nat (m * n - 4)
         \<and> map (\<lambda>p. (p_x p, p_y p)) new
             = map snd (filter (\<lambda>((i, j), xy). \<not> ((i = 0 \<or> i = m - 1) \<and> (j = 0 \<or> j = n - 1)))
                          (zip (List.product [0..m - 1] [0..n - 1]) ps))
         \<and> list_all (\<lambda>p. p_z p = 0) new"
proof -
  define grid where "grid = List.product [0..m - 1] [0..n - 1]"
  define keep where "keep = (\<lambda>(i::int, j::int). \<not> ((i = 0 \<or> i = m - 1) \<and> (j = 0 \<or> j = n - 1)))"
  define xy where "xy = (\<lambda>(i, j).
                  (25 + real_of_int i * ((column_length fl - 2 * 25) / real_of_int (m - 1)),
                   25 + real_of_int j * ((column_width fl - 2 * 25) / real_of_int (n - 1))))"
  define ps where "ps = map xy grid"
  define new where "new = map (\<lambda>ij. Point3D (fst (xy ij)) (snd (xy ij)) 0) (filter keep grid)"
  have m1: "m - 1 \<noteq> 0" "0 < m" and n1: "n - 1 \<noteq> 0" "0 < n"
    using assms(4,5) by simp_all
  have calc: "calculate_section_rebar_positions fl = Inr ps"
    using assms(1,2,3) m1 n1
    by (simp add: calculate_section_rebar_positions_def Let_def ps_def xy_def grid_def)
  have ent: "calculate_rectangular_positions sec 25
               = Inr (sec\<lparr>rebar_positions := rebar_positions sec @ new\<rparr>)"
    using assms(6-10) m1 n1
    by (simp add: calculate_rectangular_positions_def Let_def new_def xy_def grid_def keep_def
          split_def)
  have len_ps: "length ps = nat (m * n)"
    using m1 n1 by (simp add: ps_def grid_def nat_mult_distrib)
  have len_new: "length new = nat (m * n - 4)"
    using grid_without_corners_length [OF assms(4,5)] by (simp add: new_def keep_def grid_def)
  have "map (\<lambda>p. (p_x p, p_y p)) new = map xy (filter keep grid)"
    by (simp add: new_def comp_def)
  also have "\<dots> = map snd (filter (\<lambda>kv. keep (fst kv)) (zip grid ps))"
    unfolding ps_def by (rule zip_map_filter_keys [symmetric])
  finally have shared: "map (\<lambda>p. (p_x p, p_y p)) new
             = map snd (filter (\<lambda>((i, j), xy). \<not> ((i = 0 \<or> i = m - 1) \<and> (j = 0 \<or> j = n - 1)))
                          (zip grid ps))"
    by (simp add: keep_def split_def)
  have z: "list_all (\<lambda>p. p_z p = 0) new"
    by (simp add: new_def list_all_iff)
  from calc ent len_ps len_new shared z show ?thesis
    unfolding grid_def [symmetric] ps_def [symmetric]
    by (intro exI [of _ ps] exI [of _ "sec\<lparr>rebar_positions := rebar_positions sec @ new\<rparr>"]
          exI [of _ new]) (simp add: ps_def xy_def grid_def)
qed

theorem section_grid_and_perimeter_witness:
  "0 < column_width example_floor \<and> 2 \<le> rebar_amount_x example_floor
   \<and> 2 \<le> rebar_amount_y example_floor
   \<and> map_sum id length (calculate_section_rebar_positions example_floor) = Inr 16
   \<and> map_sum id (\<lambda>s. length (rebar_positions s))
        (calculate_rectangular_positions example_section 25) = Inr 12"
proof -
  have h: "0 < column_width example_floor" "rebar_amount_x example_floor = 4"
    "rebar_amount_y example_floor = 4" "(2::int) \<le> 4" "(2::int) \<le> 4"
    "reinforcement (section_floor example_section)
       = Some \<lparr> entity_main_bars = [], links = [], main_bars_x = 4, main_bars_y = 4 \<rparr>"
    "main_bars_x \<lparr> entity_main_bars = [], links = [], main_bars_x = 4, main_bars_y = 4 \<rparr> = 4"
    "main_bars_y \<lparr> entity_main_bars = [], links = [], main_bars_x = 4, main_bars_y = 4 \<rparr> = 4"
    "cf_length (section_floor example_section) = column_length example_floor"
    "cf_width (section_floor example_section) = column_width example_floor"
    by (simp_all add: example_floor_def example_section_def)
  from section_grid_and_perimeter [OF h] obtain ps sec' new where
    "calculate_section_rebar_positions example_floor = Inr ps" "length ps = nat (4 * 4)"
    "calculate_rectangular_positions example_section 25 = Inr sec'"
    "rebar_positions sec' = rebar_positions example_section @ new" "length new = nat (4 * 4 - 4)"
    by blast
  then show ?thesis using h by (simp add: example_section_def)
qed

section \<open>Validation of the rebar count (C5)\<close>

lemma and_then_Inr:
  "and_then first second = Inr zs \<longleftrightarrow> (\<exists>xs ys. first = Inr xs \<and> second = Inr ys \<and> zs = xs @ ys)"
  by (auto simp: and_then_def split: sum.splits)

lemma range_check_numeric:
  assumes "numeric_at d key"
  shows "\<exists>es. range_check d key value_type msg = Inr es"
proof (cases "d key")
  case None
  then show ?thesis by (simp add: range_check_def)
next
  case (Some v)
  with assms obtain r where "v = PNum r"
    by (cases v) (simp_all add: numeric_at_def)
  with Some show ?thesis
    by (cases "limits value_type") (auto simp: range_check_def is_in_range_def)
qed

lemma expected_rebars_of_int:
  "calculate_expected_rebars (real_of_int x) (real_of_int y)
     = real_of_int (calculate_expected_rebars x y)"
  by (simp add: calculate_expected_rebars_def max_def)

lemma width_check_numeric:
  assumes "numeric_at fl ''column_width''"
  shows "\<exists>es. (case fl ''column_width'' of
                 None \<Rightarrow> Inr []
               | Some (PNum w) \<Rightarrow>
                   if w > 0
                   then range_check fl ''column_width'' ''column_width'' msg
                   else Inr []
               | Some _ \<Rightarrow> Inl TypeError) = Inr es"
proof (cases "fl ''column_width''")
  case None
  then show ?thesis by simp
next
  case (Some v)
  with assms obtain w where "v = PNum w"
    by (cases v) (simp_all add: numeric_at_def)
  with Some range_check_numeric [OF assms, of "''column_width''" msg] show ?thesis
    by auto
qed

lemma amount_check_numeric:
  assumes "numeric_at fl ''rebar_amount_x''" "numeric_at fl ''rebar_amount_y''"
  shows "\<exists>es. (case (fl ''rebar_amount'', fl ''rebar_amount_x'', fl ''rebar_amount_y'') of
                 (Some amount, Some amount_x, Some amount_y) \<Rightarrow>
                   (case calculate_expected_rebars_val amount_x amount_y of
                      Inl e \<Rightarrow> Inl e
                    | Inr expected \<Rightarrow>
                        Inr (if amount \<noteq> expected then [msg expected amount] else []))
               | _ \<Rightarrow> Inr []) = Inr es"
proof (cases "fl ''rebar_amount''")
  case None
  then show ?thesis by simp
next
  case a: (Some amount)
  show ?thesis
  proof (cases "fl ''rebar_amount_x''")
    case None
    with a show ?thesis by simp
  next
    case x: (Some vx)
    with assms(1) obtain rx where vx: "vx = PNum rx"
      by (cases vx) (simp_all add: numeric_at_def)
    show ?thesis
    proof (cases "fl ''rebar_amount_y''")
      case None
      with a x show ?thesis by simp
    next
      case y: (Some vy)
      with assms(2) obtain ry where vy: "vy = PNum ry"
        by (cases vy) (simp_all add: numeric_at_def)
      from a x y vx vy show ?thesis by simp
    qed
  qed
qed

lemma amount_check_mismatch:
  assumes "fl ''rebar_amount'' = Some amount"
    and "fl ''rebar_amount_x'' = Some (PNum (real_of_int x))"
    and "fl ''rebar_amount_y'' = Some (PNum (real_of_int y))"
    and "amount \<noteq> PNum (real_of_int (calculate_expected_rebars x y))"
  shows "(case (fl ''rebar_amount'', fl ''rebar_amount_x'', fl ''rebar_amount_y'') of
                 (Some amount, Some amount_x, Some amount_y) \<Rightarrow>
                   (case calculate_expected_rebars_val amount_x amount_y of
                      Inl e \<Rightarrow> Inl e
                    | Inr expected \<Rightarrow>
                        Inr (if amount \<noteq> expected then [msg expected amount] else []))
               | _ \<Rightarrow> Inr [])
          = Inr [msg (PNum (real_of_int (calculate_expected_rebars x y))) amount]"
  using assms by (simp add: expected_rebars_of_int)

lemma numeric_floor_at:
  assumes "numeric_floor fl"
  shows "numeric_at fl ''total_height''" "numeric_at fl ''column_length''"
    "numeric_at fl ''column_width''" "numeric_at fl ''rebar_diameter''"
    "numeric_at fl ''stirrup_diameter''" "numeric_at fl ''rebar_amount_x''"
    "numeric_at fl ''rebar_amount_y''" "numeric_at fl ''concrete_cover''"
    "numeric_at fl ''edge_stirrup_spacing''" "numeric_at fl ''mid_stirrup_spacing''"
  using assms by (simp_all add: numeric_floor_def)

lemma validate_floor_returns:
  assumes "numeric_floor fl" and cls: "DataValidator_class names = Inr ()"
  shows "\<exists>es. validate_floor names fl i = Inr es"
proof -
  note n = numeric_floor_at [OF assms(1)]
  obtain e1 where e1: "range_check fl ''total_height'' ''floor_height'' (HeightOutOfRange (i + 1))
                         = Inr e1"
    using range_check_numeric [OF n(1)] by blast
  obtain e2 where e2: "range_check fl ''column_length'' ''column_length'' (LengthOutOfRange (i + 1))
                         = Inr e2"
    using range_check_numeric [OF n(2)] by blast
  obtain e3 where e3: "(case fl ''column_width'' of
                 None \<Rightarrow> Inr []
               | Some (PNum w) \<Rightarrow>
                   if w > 0
                   then range_check fl ''column_width'' ''column_width'' (WidthOutOfRange (i + 1))
                   else Inr []
               | Some _ \<Rightarrow> Inl TypeError) = Inr e3"
    using width_check_numeric [OF n(3)] by blast
  obtain e4 where e4: "range_check fl ''rebar_diameter'' ''rebar_diameter''
                         (RebarDiameterOutOfRange (i + 1)) = Inr e4"
    using range_check_numeric [OF n(4)] by blast
  obtain e5 where e5: "range_check fl ''stirrup_diameter'' ''stirrup_diameter''
                         (StirrupDiameterOutOfRange (i + 1)) = Inr e5"
    using range_check_numeric [OF n(5)] by blast
  obtain e6 where e6: "(case (fl ''rebar_amount'', fl ''rebar_amount_x'', fl ''rebar_amount_y'') of
                 (Some amount, Some amount_x, Some amount_y) \<Rightarrow>
                   (case calculate_expected_rebars_val amount_x amount_y of
                      Inl e \<Rightarrow> Inl e
                    | Inr expected \<Rightarrow>
                        Inr (if amount \<noteq> expected
                             then [RebarAmountMismatch (i + 1) expected amount] else []))
               | _ \<Rightarrow> Inr []) = Inr e6"
    using amount_check_numeric [OF n(6,7), of "RebarAmountMismatch (i + 1)"] by blast
  show ?thesis
    unfolding validate_floor_def cls sum.case e1 e2 e3 e4 e5 e6 by (simp add: and_then_def)
qed

lemma check_floor_warnings_returns:
  assumes "numeric_floor fl" and cls: "DataValidator_class names = Inr ()"
  shows "\<exists>ws. check_floor_warnings names fl i = Inr ws"
proof -
  note n = numeric_floor_at [OF assms(1)]
  have cover: "\<exists>ws. (case (fl ''column_length'', fl ''column_width'') of
                 (Some len, Some w) \<Rightarrow>
                   (let cover = (case fl ''concrete_cover'' of None \<Rightarrow> PNum 25 | Some c \<Rightarrow> c)
                    in case twice_ge cover len of
                         Inl e \<Rightarrow> Inl e
                       | Inr large \<Rightarrow> Inr (if large then [CoverTooLarge (i + 1)] else []))
               | _ \<Rightarrow> Inr []) = Inr ws"
  proof (cases "fl ''column_length''")
    case None
    then show ?thesis by simp
  next
    case l: (Some len)
    with n(2) obtain rl where rl: "len = PNum rl"
      by (cases len) (simp_all add: numeric_at_def)
    show ?thesis
    proof (cases "fl ''column_width''")
      case None
      with l show ?thesis by simp
    next
      case w: (Some wv)
      show ?thesis
      proof (cases "fl ''concrete_cover''")
        case None
        with l w rl show ?thesis by simp
      next
        case (Some c)
        with n(8) obtain rc where "c = PNum rc"
          by (cases c) (simp_all add: numeric_at_def)
        with Some l w rl show ?thesis by simp
      qed
    qed
  qed
  have spacing: "\<exists>ws. (case (fl ''edge_stirrup_spacing'', fl ''mid_stirrup_spacing'') of
                 (Some edge, Some mid) \<Rightarrow>
                   and_then (case num_less edge 75 of
                               Inl e \<Rightarrow> Inl e
                             | Inr small \<Rightarrow>
                                 Inr (if small then [EdgeSpacingSmall (i + 1)] else []))
                            (case num_greater mid 300 of
                               Inl e \<Rightarrow> Inl e
                             | Inr large \<Rightarrow>
                                 Inr (if large then [MidSpacingLarge (i + 1)] else []))
               | _ \<Rightarrow> Inr []) = Inr ws"
  proof (cases "fl ''edge_stirrup_spacing''")
    case None
    then show ?thesis by simp
  next
    case e: (Some edge)
    with n(9) obtain re where re: "edge = PNum re"
      by (cases edge) (simp_all add: numeric_at_def)
    show ?thesis
    proof (cases "fl ''mid_stirrup_spacing''")
      case None
      with e show ?thesis by simp
    next
      case (Some mid)
      with n(10) obtain rm where "mid = PNum rm"
        by (cases mid) (simp_all add: numeric_at_def)
      with Some e re show ?thesis by (simp add: and_then_def)
    qed
  qed
  from cover spacing show ?thesis
    unfolding check_floor_warnings_def cls sum.case by (auto simp: and_then_def)
qed

lemma validate_floors_loop_returns:
  assumes "list_all numeric_floor fs" and cls: "DataValidator_class names = Inr ()"
  shows "\<exists>errs' warns'. validate_floors_loop names fs i errs warns = Inr (errs', warns')
           \<and> set errs \<subseteq> set errs'
           \<and> (\<forall>k < length fs. \<forall>es. validate_floor names (fs ! k) (i + k) = Inr es
                  \<longrightarrow> set es \<subseteq> set errs')"
  using assms(1)
proof (induction fs arbitrary: i errs warns)
  case Nil
  then show ?case by simp
next
  case (Cons fl rest)
  from Cons.prems have nf: "numeric_floor fl" and nr: "list_all numeric_floor rest"
    by simp_all
  obtain es where es: "validate_floor names fl i = Inr es"
    using validate_floor_returns [OF nf cls] by blast
  obtain ws where ws: "check_floor_warnings names fl i = Inr ws"
    using check_floor_warnings_returns [OF nf cls] by blast
  from Cons.IH [OF nr, of "i + 1" "errs @ es" "warns @ ws"] obtain errs' warns' where
    r: "validate_floors_loop names rest (i + 1) (errs @ es) (warns @ ws) = Inr (errs', warns')"
    and s: "set (errs @ es) \<subseteq> set errs'"
    and a: "\<forall>k < length rest. \<forall>es'. validate_floor names (rest ! k) (i + 1 + k) = Inr es'
                  \<longrightarrow> set es' \<subseteq> set errs'"
    by blast
  have "validate_floors_loop names (fl # rest) i errs warns = Inr (errs', warns')"
    using es ws r by simp
  moreover have "set errs \<subseteq> set errs'" using s by simp
  moreover have "\<forall>k < length (fl # rest). \<forall>es'. validate_floor names ((fl # rest) ! k) (i + k) = Inr es'
                  \<longrightarrow> set es' \<subseteq> set errs'"
  proof (intro allI impI)
    fix k es'
    assume k: "k < length (fl # rest)" and v: "validate_floor names ((fl # rest) ! k) (i + k) = Inr es'"
    show "set es' \<subseteq> set errs'"
    proof (cases k)
      case 0
      with v es s show ?thesis by simp
    next
      case (Suc j)
      with k v a show ?thesis by simp
    qed
  qed
  ultimately show ?case by blast
qed

lemma validate_settings_returns:
  assumes "numeric_settings s" and cls: "DataValidator_class names = Inr ()"
  shows "\<exists>es. validate_settings names s = Inr es"
proof -
  from assms(1) have n: "numeric_at s ''beam_depth''" "numeric_at s ''concrete_cover''"
    by (simp_all add: numeric_settings_def)
  obtain e1 where e1: "range_check s ''beam_depth'' ''floor_height'' BeamDepthOutOfRange = Inr e1"
    using range_check_numeric [OF n(1)] by blast
  obtain e2 where e2: "range_check s ''concrete_cover'' ''concrete_cover'' ConcreteCoverOutOfRange
                         = Inr e2"
    using range_check_numeric [OF n(2)] by blast
  show ?thesis
    unfolding validate_settings_def cls sum.case e1 e2 by (simp add: and_then_def)
qed

lemma validate_column_data_is_valid:
  assumes "validate_column_data names data = Inr r"
  shows "is_valid r = (errors r = [])"
  using assms
  by (auto simp: validate_column_data_def split: sum.splits prod.splits)

lemma DataValidator_class_cases:
  "DataValidator_class names = Inr () \<or> DataValidator_class names = Inl NameError"
  by (simp add: DataValidator_class_def)

lemma validate_floor_loaded:
  assumes "validate_floor names fl i = Inr es"
  shows "DataValidator_class names = Inr ()"
  using assms DataValidator_class_cases [of names] by (auto simp: validate_floor_def)

lemma validate_floor_mismatch_returned:
  assumes "validate_floor names fl i = Inr es"
    and "fl ''rebar_amount'' = Some amount"
    and "fl ''rebar_amount_x'' = Some (PNum (real_of_int x))"
    and "fl ''rebar_amount_y'' = Some (PNum (real_of_int y))"
    and "amount \<noteq> PNum (real_of_int (calculate_expected_rebars x y))"
  shows "RebarAmountMismatch (i + 1) (PNum (real_of_int (calculate_expected_rebars x y))) amount
           \<in> set es"
proof -
  note e6 = amount_check_mismatch [OF assms(2-5), of "RebarAmountMismatch (i + 1)"]
  note cls = validate_floor_loaded [OF assms(1)]
  from assms(1) show ?thesis
    unfolding validate_floor_def cls sum.case e6 and_then_Inr by auto
qed

lemma validate_floors_loop_returned:
  assumes "validate_floors_loop names fs i errs warns = Inr (errs', warns')"
  shows "set errs \<subseteq> set errs'
           \<and> (\<forall>k < length fs. \<exists>es. validate_floor names (fs ! k) (i + k) = Inr es
                  \<and> set es \<subseteq> set errs')"
  using assms
proof (induction fs arbitrary: i errs warns)
  case Nil
  then show ?case by simp
next
  case (Cons fl rest)
  from Cons.prems obtain es ws where es: "validate_floor names fl i = Inr es"
    and ws: "check_floor_warnings names fl i = Inr ws"
    and r: "validate_floors_loop names rest (i + 1) (errs @ es) (warns @ ws) = Inr (errs', warns')"
    by (auto split: sum.splits)
  from Cons.IH [OF r] have s: "set (errs @ es) \<subseteq> set errs'"
    and a: "\<forall>k < length rest. \<exists>es'. validate_floor names (rest ! k) (i + 1 + k) = Inr es'
                  \<and> set es' \<subseteq> set errs'"
    by blast+
  have "\<exists>es'. validate_floor names ((fl # rest) ! k) (i + k) = Inr es' \<and> set es' \<subseteq> set errs'"
    if "k < length (fl # rest)" for k
  proof (cases k)
    case 0
    with es s show ?thesis by simp
  next
    case (Suc j)
    with that a show ?thesis by simp
  qed
  with s show ?case by simp
qed

lemma rebar_amount_mismatch_general:
  assumes "k < length fs"
    and "(fs ! k) ''rebar_amount'' = Some amount"
    and "(fs ! k) ''rebar_amount_x'' = Some (PNum (real_of_int x))"
    and "(fs ! k) ''rebar_amount_y'' = Some (PNum (real_of_int y))"
    and "amount \<noteq> PNum (real_of_int (calculate_expected_rebars x y))"
  shows "(validate_column_data names \<lparr> settings_entry = Some s, floors_entry = Some fs \<rparr> = Inr r
            \<longrightarrow> RebarAmountMismatch (k + 1)
                   (PNum (real_of_int (calculate_expected_rebars x y))) amount \<in> set (errors r)
                \<and> \<not> is_valid r)
       \<and> (DataValidator_class names = Inr () \<and> numeric_settings s \<and> list_all numeric_floor fs
            \<longrightarrow> (\<exists>returned. validate_column_data names
                    \<lparr> settings_entry = Some s, floors_entry = Some fs \<rparr> = Inr returned))"
proof (intro conjI impI)
  assume "DataValidator_class names = Inr () \<and> numeric_settings s \<and> list_all numeric_floor fs"
  then have cls: "DataValidator_class names = Inr ()"
    and ns: "numeric_settings s" and nf: "list_all numeric_floor fs" by blast+
  obtain se where se: "validate_settings names s = Inr se"
    using validate_settings_returns [OF ns cls] by blast
  obtain errs warns where "validate_floors_loop names fs 0 se [] = Inr (errs, warns)"
    using validate_floors_loop_returns [OF nf cls, of 0 se "[]"] by blast
  with se cls show "\<exists>returned. validate_column_data names
                    \<lparr> settings_entry = Some s, floors_entry = Some fs \<rparr> = Inr returned"
    by (simp add: validate_column_data_def)
next
  assume ret: "validate_column_data names \<lparr> settings_entry = Some s, floors_entry = Some fs \<rparr>
                 = Inr r"
  then obtain se errs warns where se: "validate_settings names s = Inr se"
    and l: "validate_floors_loop names fs 0 se [] = Inr (errs, warns)"
    and r: "r = \<lparr> is_valid = (length errs = 0), errors = errs, warnings = warns \<rparr>"
    by (auto simp: validate_column_data_def split: sum.splits prod.splits)
  from validate_floors_loop_returned [OF l] assms(1) obtain es where
    es: "validate_floor names (fs ! k) k = Inr es" and sub: "set es \<subseteq> set errs"
    by auto
  from validate_floor_mismatch_returned [OF es assms(2-5)] sub
  have me: "RebarAmountMismatch (k + 1)
              (PNum (real_of_int (calculate_expected_rebars x y))) amount \<in> set errs"
    by blast
  then have "errs \<noteq> []" by auto
  with me r show "RebarAmountMismatch (k + 1)
                   (PNum (real_of_int (calculate_expected_rebars x y))) amount \<in> set (errors r)"
    and "\<not> is_valid r"
    by simp_all
qed

lemma example_dicts_numeric:
  "numeric_settings example_settings_dict" "numeric_floor example_floor_dict"
  "numeric_floor mismatch_floor_dict"
  by (simp_all add: numeric_settings_def numeric_floor_def numeric_at_def
        example_settings_dict_def example_floor_dict_def mismatch_floor_dict_def)

lemma DataValidator_class_shipped: "DataValidator_class validation_module_names = Inl NameError"
  by (simp add: DataValidator_class_def DataValidator_annotations_def validation_module_names_def)

lemma DataValidator_class_with_List:
  "DataValidator_class (''List'' # validation_module_names) = Inr ()"
  by (simp add: DataValidator_class_def DataValidator_annotations_def validation_module_names_def)

lemma example_floor_dict_valid:
  "validate_floor (''List'' # validation_module_names) example_floor_dict i = Inr []"
  by (simp add: validate_floor_def DataValidator_class_with_List and_then_def range_check_def
        is_in_range_def limits_def missing_fields_def example_floor_dict_def
        calculate_expected_rebars_def)

lemma mismatch_floor_dict_errors:
  "validate_floor (''List'' # validation_module_names) mismatch_floor_dict i
     = Inr [RebarAmountMismatch (i + 1) (PNum 12) (PNum 10)]"
  by (simp add: validate_floor_def DataValidator_class_with_List and_then_def range_check_def
        is_in_range_def limits_def missing_fields_def example_floor_dict_def
        mismatch_floor_dict_def calculate_expected_rebars_def)

lemma example_floor_dict_warnings:
  "check_floor_warnings (''List'' # validation_module_names) example_floor_dict i = Inr []"
  "check_floor_warnings (''List'' # validation_module_names) mismatch_floor_dict i = Inr []"
  by (simp_all add: check_floor_warnings_def DataValidator_class_with_List and_then_def
        example_floor_dict_def mismatch_floor_dict_def)

lemma example_settings_dict_valid:
  "validate_settings (''List'' # validation_module_names) example_settings_dict = Inr []"
  by (simp add: validate_settings_def DataValidator_class_with_List and_then_def range_check_def
        is_in_range_def limits_def missing_fields_def example_settings_dict_def)

text \<open>
  C5 states that a floor whose \<^verbatim>\<open>rebar_amount\<close> differs from the expected count (10
  against \<open>2 * 4 + 2 * max 0 (4 - 2) = 12\<close>) makes \<^verbatim>\<open>validate_column_data\<close> append an
  error and return \<^verbatim>\<open>is_valid\<close> false. In the module as it is written, \<^verbatim>\<open>List\<close> is
  not imported: the body of \<^verbatim>\<open>class DataValidator\<close> raises NameError and the method
  cannot be called. With \<^verbatim>\<open>List\<close> bound, the call returns the mismatch as its only
  error, with \<^verbatim>\<open>is_valid\<close> false.
\<close>

theorem validate_column_data_mismatch:
  "calculate_expected_rebars (4::int) 4 = 12
   \<and> validate_column_data validation_module_names
         \<lparr> settings_entry = Some example_settings_dict,
           floors_entry = Some [mismatch_floor_dict] \<rparr>
       = Inl NameError
   \<and> validate_column_data (''List'' # validation_module_names)
         \<lparr> settings_entry = Some example_settings_dict,
           floors_entry = Some [mismatch_floor_dict] \<rparr>
       = Inr \<lparr> is_valid = False,
               errors = [RebarAmountMismatch 1 (PNum 12) (PNum 10)],
               warnings = [] \<rparr>"
proof (intro conjI)
  show "calculate_expected_rebars (4::int) 4 = 12"
    by (simp add: calculate_expected_rebars_def)
  show "validate_column_data validation_module_names
         \<lparr> settings_entry = Some example_settings_dict,
           floors_entry = Some [mismatch_floor_dict] \<rparr>
       = Inl NameError"
    by (simp add: validate_column_data_def DataValidator_class_shipped)
  show "validate_column_data (''List'' # validation_module_names)
         \<lparr> settings_entry = Some example_settings_dict,
           floors_entry = Some [mismatch_floor_dict] \<rparr>
       = Inr \<lparr> is_valid = False,
               errors = [RebarAmountMismatch 1 (PNum 12) (PNum 10)],
               warnings = [] \<rparr>"
    by (simp add: validate_column_data_def DataValidator_class_with_List
          example_settings_dict_valid example_floor_dict_valid mismatch_floor_dict_errors
          example_floor_dict_warnings)
qed

section \<open>Division by zero in the section grid (C7)\<close>

lemma section_rebar_positions_zero_division:
  assumes "0 < column_width fl"
  shows "(calculate_section_rebar_positions fl = Inl ZeroDivisionError)
           = (rebar_amount_x fl = 1 \<or> rebar_amount_y fl = 1)"
  using assms by (auto simp: calculate_section_rebar_positions_def Let_def)

lemma section_rebar_positions_returns:
  assumes "0 < column_width fl" "rebar_amount_x fl \<noteq> 1" "rebar_amount_y fl \<noteq> 1"
  shows "\<exists>ps. calculate_section_rebar_positions fl = Inr ps"
  using assms by (simp add: calculate_section_rebar_positions_def Let_def)

lemma section_dimensions_zero_division:
  "(calculate_section_dimensions fl scl = Inl e) = (calculate_section_rebar_positions fl = Inl e)"
  by (simp add: calculate_section_dimensions_def Let_def split: sum.splits)

lemma and_then_Nil:
  "and_then first second = Inr [] \<longleftrightarrow> first = Inr [] \<and> second = Inr []"
  by (auto simp: and_then_def split: sum.splits)

lemma range_check_update:
  "key \<noteq> k \<Longrightarrow> range_check (d(k \<mapsto> v)) key value_type msg = range_check d key value_type msg"
  by (simp add: range_check_def)

lemma limits_rebar_counts:
  "limits ''rebar_amount'' = None" "limits ''rebar_amount_x'' = None"
  "limits ''rebar_amount_y'' = None"
  by (simp_all add: limits_def)

lemma missing_fields_update:
  "missing_fields d required msg = [] \<Longrightarrow> v \<noteq> PNone
     \<Longrightarrow> missing_fields (d(k \<mapsto> v)) required msg = []"
  by (auto simp: missing_fields_def filter_empty_conv)

lemma product_Nil_right: "List.product xs [] = []"
  by (induction xs) simp_all

lemma validate_floor_any_counts:
  assumes "validate_floor names d i = Inr []"
  shows "validate_floor names
           (d(''rebar_amount_x'' \<mapsto> PNum (real_of_int m),
              ''rebar_amount_y'' \<mapsto> PNum (real_of_int n),
              ''rebar_amount'' \<mapsto> PNum (real_of_int (calculate_expected_rebars m n)))) i
         = Inr []"
proof -
  define d' where "d' = d(''rebar_amount_x'' \<mapsto> PNum (real_of_int m),
              ''rebar_amount_y'' \<mapsto> PNum (real_of_int n),
              ''rebar_amount'' \<mapsto> PNum (real_of_int (calculate_expected_rebars m n)))"
  note cls = validate_floor_loaded [OF assms]
  from assms have
    c1: "missing_fields d [''total_height'', ''column_length'', ''floor_name'',
                  ''rebar_amount'', ''rebar_diameter''] (FloorMissing (i + 1)) = []"
    and c2: "range_check d ''total_height'' ''floor_height'' (HeightOutOfRange (i + 1)) = Inr []"
    and c3: "range_check d ''column_length'' ''column_length'' (LengthOutOfRange (i + 1)) = Inr []"
    and c4: "(case d ''column_width'' of
                 None \<Rightarrow> Inr []
               | Some (PNum w) \<Rightarrow>
                   if w > 0
                   then range_check d ''column_width'' ''column_width''
                          (WidthOutOfRange (i + 1))
                   else Inr []
               | Some _ \<Rightarrow> Inl TypeError) = Inr []"
    and c5: "range_check d ''rebar_diameter'' ''rebar_diameter''
                 (RebarDiameterOutOfRange (i + 1)) = Inr []"
    and c6: "range_check d ''stirrup_diameter'' ''stirrup_diameter''
                 (StirrupDiameterOutOfRange (i + 1)) = Inr []"
    unfolding validate_floor_def cls sum.case and_then_Nil by simp_all
  have k1: "missing_fields d' [''total_height'', ''column_length'', ''floor_name'',
                  ''rebar_amount'', ''rebar_diameter''] (FloorMissing (i + 1)) = []"
    unfolding d'_def by (intro missing_fields_update c1) simp_all
  have k2: "range_check d' ''total_height'' ''floor_height'' (HeightOutOfRange (i + 1)) = Inr []"
    unfolding d'_def using c2 by (simp add: range_check_update)
  have k3: "range_check d' ''column_length'' ''column_length'' (LengthOutOfRange (i + 1)) = Inr []"
    unfolding d'_def using c3 by (simp add: range_check_update)
  have w: "d' ''column_width'' = d ''column_width''"
    by (simp add: d'_def)
  have rw: "range_check d' ''column_width'' ''column_width'' (WidthOutOfRange (i + 1))
              = range_check d ''column_width'' ''column_width'' (WidthOutOfRange (i + 1))"
    unfolding d'_def by (simp add: range_check_update)
  have k4: "(case d' ''column_width'' of
                 None \<Rightarrow> Inr []
               | Some (PNum w) \<Rightarrow>
                   if w > 0
                   then range_check d' ''column_width'' ''column_width''
                          (WidthOutOfRange (i + 1))
                   else Inr []
               | Some _ \<Rightarrow> Inl TypeError) = Inr []"
    unfolding w rw by (rule c4)
  have k5: "range_check d' ''rebar_diameter'' ''rebar_diameter''
                 (RebarDiameterOutOfRange (i + 1)) = Inr []"
    unfolding d'_def using c5 by (simp add: range_check_update)
  have k6: "range_check d' ''stirrup_diameter'' ''stirrup_diameter''
                 (StirrupDiameterOutOfRange (i + 1)) = Inr []"
    unfolding d'_def using c6 by (simp add: range_check_update)
  have k7: "(case (d' ''rebar_amount'', d' ''rebar_amount_x'', d' ''rebar_amount_y'') of
                 (Some amount, Some amount_x, Some amount_y) \<Rightarrow>
                   (case calculate_expected_rebars_val amount_x amount_y of
                      Inl e \<Rightarrow> Inl e
                    | Inr expected \<Rightarrow>
                        Inr (if amount \<noteq> expected
                             then [RebarAmountMismatch (i + 1) expected amount]
                             else []))
               | _ \<Rightarrow> Inr []) = Inr []"
    by (simp add: d'_def expected_rebars_of_int)
  have "validate_floor names d' i = Inr []"
    unfolding validate_floor_def cls sum.case and_then_Nil
    using k1 k2 k3 k4 k5 k6 k7 by (intro conjI) simp_all
  then show ?thesis by (simp add: d'_def)
qed

text \<open>
  C7, as stated, ends: the division by zero is unreachable only under the precondition
  that both counts are at least 2. A rectangular floor with \<^verbatim>\<open>rebar_amount_y = 0\<close>,
  the case the validator's expected count spells out as "only X set", does not meet the
  precondition and does not divide by zero: the divisor is \<open>-1\<close> and the result is the
  empty list.
\<close>

theorem section_zero_division_counterexample:
  "0 < column_width single_axis_floor
   \<and> \<not> (2 \<le> rebar_amount_x single_axis_floor \<and> 2 \<le> rebar_amount_y single_axis_floor)
   \<and> calculate_section_rebar_positions single_axis_floor = Inr []
   \<and> calculate_section_rebar_positions single_axis_floor \<noteq> Inl ZeroDivisionError"
  by (simp add: single_axis_floor_def example_floor_def calculate_section_rebar_positions_def
        Let_def product_Nil_right)

text \<open>
  C7, amended: for a rectangular floor (\<open>column_width > 0\<close>),
  \<^verbatim>\<open>_calculate_section_rebar_positions\<close>, and \<^verbatim>\<open>calculate_section_dimensions\<close> through
  it, raise ZeroDivisionError exactly when \<^verbatim>\<open>rebar_amount_x = 1\<close> or
  \<^verbatim>\<open>rebar_amount_y = 1\<close>, and return otherwise: counts of at least 2 are enough to
  avoid the division by zero, and counts below 1 avoid it too. The validator's table of
  limits has no entry for the rebar counts; and where the validator's methods can be
  called, a floor dictionary that validates without errors still does so with any
  \<^verbatim>\<open>rebar_amount_x\<close> and \<^verbatim>\<open>rebar_amount_y\<close>, 1 among them, and the matching
  \<^verbatim>\<open>rebar_amount\<close>.
\<close>

theorem section_zero_division:
  "(0 < column_width fl \<longrightarrow>
      (calculate_section_rebar_positions fl = Inl ZeroDivisionError)
        = (rebar_amount_x fl = 1 \<or> rebar_amount_y fl = 1)
    \<and> (calculate_section_dimensions fl scl = Inl ZeroDivisionError)
        = (rebar_amount_x fl = 1 \<or> rebar_amount_y fl = 1)
    \<and> (rebar_amount_x fl \<noteq> 1 \<and> rebar_amount_y fl \<noteq> 1 \<longrightarrow>
          (\<exists>sd. calculate_section_dimensions fl scl = Inr sd)))
   \<and> limits ''rebar_amount'' = None \<and> limits ''rebar_amount_x'' = None
   \<and> limits ''rebar_amount_y'' = None
   \<and> (validate_floor names d i = Inr [] \<longrightarrow>
        validate_floor names
          (d(''rebar_amount_x'' \<mapsto> PNum (real_of_int m),
             ''rebar_amount_y'' \<mapsto> PNum (real_of_int n),
             ''rebar_amount'' \<mapsto> PNum (real_of_int (calculate_expected_rebars m n)))) i
        = Inr [])"
proof -
  have "\<exists>sd. calculate_section_dimensions fl scl = Inr sd"
    if "0 < column_width fl" "rebar_amount_x fl \<noteq> 1" "rebar_amount_y fl \<noteq> 1"
  proof -
    from section_rebar_positions_returns [OF that] obtain ps where
      "calculate_section_rebar_positions fl = Inr ps" by blast
    then show ?thesis by (simp add: calculate_section_dimensions_def Let_def)
  qed
  then show ?thesis
    by (simp add: section_rebar_positions_zero_division section_dimensions_zero_division
          limits_rebar_counts validate_floor_any_counts)
qed

theorem section_zero_division_witness:
  "0 < column_width one_bar_floor \<and> rebar_amount_x one_bar_floor = 1
   \<and> calculate_section_dimensions one_bar_floor 1 = Inl ZeroDivisionError
   \<and> 0 < column_width example_floor
   \<and> rebar_amount_x example_floor \<noteq> 1 \<and> rebar_amount_y example_floor \<noteq> 1
   \<and> calculate_section_dimensions example_floor 1 \<noteq> Inl ZeroDivisionError
   \<and> validate_floor (''List'' # validation_module_names) example_floor_dict 0 = Inr []
   \<and> validate_floor (''List'' # validation_module_names)
        (example_floor_dict(''rebar_amount_x'' \<mapsto> PNum 1, ''rebar_amount_y'' \<mapsto> PNum 4,
           ''rebar_amount'' \<mapsto> PNum 6)) 0 = Inr []
   \<and> validate_floor (''List'' # validation_module_names)
        (example_floor_dict(''rebar_amount_x'' \<mapsto> PNum 4, ''rebar_amount_y'' \<mapsto> PNum 1,
           ''rebar_amount'' \<mapsto> PNum 8)) 0 = Inr []"
proof -
  let ?names = "''List'' # validation_module_names"
  have h1: "0 < column_width one_bar_floor" "rebar_amount_x one_bar_floor = 1"
    by (simp_all add: one_bar_floor_def example_floor_def)
  have h2: "0 < column_width example_floor" "rebar_amount_x example_floor \<noteq> 1"
    "rebar_amount_y example_floor \<noteq> 1"
    by (simp_all add: example_floor_def)
  have e: "calculate_expected_rebars (1::int) 4 = 6" "calculate_expected_rebars (4::int) 1 = 8"
    by (simp_all add: calculate_expected_rebars_def)
  note v = example_floor_dict_valid [of 0]
  from section_zero_division [of one_bar_floor 1 ?names example_floor_dict 0 1 4] h1
  have a: "calculate_section_dimensions one_bar_floor 1 = Inl ZeroDivisionError"
    by simp
  from section_zero_division [of example_floor 1 ?names example_floor_dict 0 1 4] h2
  have b: "calculate_section_dimensions example_floor 1 \<noteq> Inl ZeroDivisionError"
    by simp
  from section_zero_division [of one_bar_floor 1 ?names example_floor_dict 0 1 4] v
  have c: "validate_floor ?names
        (example_floor_dict(''rebar_amount_x'' \<mapsto> PNum 1, ''rebar_amount_y'' \<mapsto> PNum 4,
           ''rebar_amount'' \<mapsto> PNum 6)) 0 = Inr []"
    by (simp add: e)
  from section_zero_division [of one_bar_floor 1 ?names example_floor_dict 0 4 1] v
  have d: "validate_floor ?names
        (example_floor_dict(''rebar_amount_x'' \<mapsto> PNum 4, ''rebar_amount_y'' \<mapsto> PNum 1,
           ''rebar_amount'' \<mapsto> PNum 8)) 0 = Inr []"
    by (simp add: e)
  from h1 h2 a b c d v show ?thesis by simp
qed

end
